theory Spec2Isabelle
  imports
    Main
    "HOL-Library.Product_Lexorder"
    "HOL-Library.List_Lexorder"
    "HOL-Library.Char_ord"
begin

section \<open>The term model of \<^verbatim>\<open>aerleon/lib/policy.py\<close>\<close>

text \<open>
  Python values are modelled as follows.
  \<^item> Unbounded integers are \<^typ>\<open>int\<close>; strings are \<^typ>\<open>string\<close>; an attribute that is
    \<^verbatim>\<open>None\<close> until it is set is an \<^typ>\<open>'x option\<close>.
  \<^item> \<^verbatim>\<open>sorted\<close> on strings, integers, tuples and lists is \<^const>\<open>sort\<close> with the
    lexicographic orders of the library, which are the orders Python compares them by.
  \<^item> The address objects come from \<^verbatim>\<open>aerleon.lib.nacaddr\<close>, which is not among the
    sources. They are a type parameter \<open>'a\<close> with a linear order (what \<^verbatim>\<open>sorted\<close>
    needs of them), and the library's operations (\<^verbatim>\<open>subnet_of\<close>,
    \<^verbatim>\<open>AddressListExclude\<close>, \<^verbatim>\<open>SortAddrList\<close>, \<^verbatim>\<open>CollapseAddrList\<close>,
    \<^verbatim>\<open>CollapseAddrListPreserveTokens\<close>) are parameters of the functions that call
    them.
  \<^item> A raised exception is a value of \<open>error\<close>; a method that mutates its object returns
    the object it leaves behind.
\<close>

datatype error =
    ParseError
  | TermNoActionError
  | InvalidTermActionError
  | MixedPortandNonPortProtos
  | TermPortProtocolError
  | TermProtocolEtherTypeError
  | ICMPCodeError
  | TermInvalidIcmpType
  | InvalidTermTTLValue
  | InvalidNumericProtoValue
  | NoTermsError
  | KeyError string
  | TypeError
  | ValueError
  | IndexError

text \<open>
  \<^verbatim>\<open>class VarType\<close>: a tag and a payload. The class defines \<^verbatim>\<open>__eq__\<close> and
  \<^verbatim>\<open>__hash__\<close> and no ordering. The three attributes of a term that hold
  \<^verbatim>\<open>VarType\<close> objects themselves (\<^verbatim>\<open>counter\<close>, \<^verbatim>\<open>traffic_class_count\<close>,
  \<^verbatim>\<open>logging\<close>) carry string payloads.
\<close>

record VarType =
  var_type :: nat
  vt_value :: string

text \<open>\<^verbatim>\<open>class Target\<close> and \<^verbatim>\<open>class Header\<close>.\<close>

record Target =
  platform :: string
  options :: "string list"

record Header =
  target :: "Target list"
  comment :: "string list"
  apply_groups :: "string list"
  apply_groups_except :: "string list"

text \<open>
  \<^verbatim>\<open>class Term\<close>, one field per attribute that \<^verbatim>\<open>Term.__init__\<close> sets, in its
  order. The entries of the three port attributes are of a type \<open>'p\<close>: the parser
  leaves service tokens there and \<^verbatim>\<open>TranslatePorts\<close> replaces them by
  \<open>(low, high)\<close> tuples, the type \<open>int \<times> int\<close> of the functions that read ranges.
  \<^verbatim>\<open>packet_length\<close>, \<^verbatim>\<open>fragment_offset\<close> and \<^verbatim>\<open>hop_limit\<close> hold the
  strings \<^verbatim>\<open>'N'\<close> or \<^verbatim>\<open>'N-M'\<close> the parser builds.
\<close>

record ('a, 'p) Term =
  name :: "string option"
  action :: "string list"
  address :: "'a list"
  address_exclude :: "'a list"
  restrict_address_family :: "string option"
  comment :: "string list"
  counter :: "VarType option"
  expiration :: "(int \<times> int \<times> int) option"
  destination_address :: "'a list"
  destination_address_exclude :: "'a list"
  destination_port :: "'p list"
  destination_prefix :: "string list"
  filter_term :: "string option"
  forwarding_class :: "string list"
  forwarding_class_except :: "string list"
  logging :: "VarType list"
  log_limit :: "(string \<times> string) option"
  log_name :: "string option"
  loss_priority :: "string option"
  option :: "string list"
  owner :: "string option"
  policer :: "string option"
  port :: "'p list"
  precedence :: "int list"
  protocol :: "string list"
  protocol_except :: "string list"
  qos :: "string option"
  pan_application :: "string list"
  routing_instance :: "string option"
  source_address :: "'a list"
  source_address_exclude :: "'a list"
  source_port :: "'p list"
  source_prefix :: "string list"
  ttl :: "int option"
  verbatim :: "string list list"
  packet_length :: "string option"
  fragment_offset :: "string option"
  hop_limit :: "string option"
  icmp_type :: "string list"
  icmp_code :: "int list"
  ether_type :: "string list"
  traffic_class_count :: "VarType option"
  traffic_type :: "string list"
  translated :: bool
  dscp_set :: "string option"
  dscp_match :: "string list"
  dscp_except :: "string list"
  next_ip :: "'a list option"
  flexible_match_range :: "string list list"
  source_prefix_except :: "string list"
  destination_prefix_except :: "string list"
  inactive :: bool
  encapsulate :: "string option"
  port_mirror :: "string option"
  destination_zone :: "string list"
  source_zone :: "string list"
  vpn :: "(string \<times> string) option"
  source_tag :: "string list"
  destination_tag :: "string list"
  priority :: "string option"
  source_interface :: "string option"
  destination_interface :: "string option"
  platform :: "string list"
  platform_exclude :: "string list"
  target_resources :: "(string \<times> string) list"
  target_service_accounts :: "string list"
  timeout :: "string option"
  flattened :: bool
  flattened_addr :: "'a list option"
  flattened_saddr :: "'a list option"
  flattened_daddr :: "'a list option"
  stateless_reply :: bool


section \<open>Port ranges\<close>

text \<open>
  \<^verbatim>\<open>Term.CollapsePortList\<close> (lines 1442-1469). \<open>collapse_step\<close> is the body of the
  \<^verbatim>\<open>for port in sorted(ports)\<close> loop with \<open>ret_ports\<close> as the accumulator and \<open>p\<close>
  for \<^verbatim>\<open>port\<close> (a field name of the record);
  \<^verbatim>\<open>ret_ports[-1]\<close> is \<^const>\<open>last\<close>, read only when the list is not empty, and
  \<^verbatim>\<open>ret_ports[-1] = v\<close> replaces the last element.
\<close>

definition collapse_step :: "(int \<times> int) list \<Rightarrow> int \<times> int \<Rightarrow> (int \<times> int) list" where
  "collapse_step ret_ports p =
     (if ret_ports = [] then ret_ports @ [p]
      else if snd (last ret_ports) \<ge> snd p then ret_ports
      else if fst p < snd (last ret_ports) \<and> snd (last ret_ports) < snd p
        then butlast ret_ports @ [(fst (last ret_ports), snd p)]
      else if snd (last ret_ports) + 1 = fst p
        then butlast ret_ports @ [(fst (last ret_ports), snd p)]
      else ret_ports @ [p])"

definition CollapsePortList :: "(int \<times> int) list \<Rightarrow> (int \<times> int) list" where
  "CollapsePortList ports = foldl collapse_step [] (sort ports)"

text \<open>
  What the loop leaves between two neighbours of its result: the second range starts no
  earlier than the first starts and no earlier than the first ends, does not start right
  after the first ends, and ends later.
\<close>

definition port_gap :: "int \<times> int \<Rightarrow> int \<times> int \<Rightarrow> bool" where
  "port_gap p q = (fst p \<le> fst q \<and> snd p \<le> fst q \<and> fst q \<noteq> snd p + 1 \<and> snd p < snd q)"

text \<open>
  \<^verbatim>\<open>Term.CheckProtocolIsContained\<close> (lines 1471-1489) and
  \<^verbatim>\<open>Term.CheckPortIsContained\<close> (lines 1491-1514). In the latter the inner loop with
  its \<^verbatim>\<open>break\<close> is \<^const>\<open>list_ex\<close> and the outer loop with its early
  \<^verbatim>\<open>return False\<close> is \<^const>\<open>list_all\<close>; \<^verbatim>\<open>int\<close> of an integer is the integer.
  The parameter \<^verbatim>\<open>subset\<close> is written \<open>subset'\<close> (\<open>subset\<close> is a constant of HOL).
\<close>

definition CheckProtocolIsContained :: "string list \<Rightarrow> string list \<Rightarrow> bool" where
  "CheckProtocolIsContained superset subset' =
     (if superset = [] then True
      else if subset' = [] then False
      else set subset' \<subseteq> set superset)"

definition CheckPortIsContained :: "(int \<times> int) list \<Rightarrow> (int \<times> int) list \<Rightarrow> bool" where
  "CheckPortIsContained superset subset' =
     (if superset = [] then True
      else if subset' = [] then False
      else list_all (\<lambda>sub_port.
             list_ex (\<lambda>sup_port. fst sub_port \<ge> fst sup_port \<and> snd sub_port \<le> snd sup_port)
               superset) subset')"

section \<open>Address containment\<close>

text \<open>
  \<^verbatim>\<open>Term.CheckAddressIsContained\<close> (lines 1516-1540). Its arguments are the
  \<^verbatim>\<open>flattened_*\<close> attributes of two terms, which are \<^verbatim>\<open>None\<close> or a list;
  \<^verbatim>\<open>not x\<close> holds of \<^verbatim>\<open>None\<close> and of the empty list. \<open>subnet_of x y\<close> is
  \<^verbatim>\<open>x.subnet_of(y)\<close> of the address library.
\<close>

definition py_not :: "'a list option \<Rightarrow> bool" where
  "py_not x = (case x of None \<Rightarrow> True | Some xs \<Rightarrow> xs = [])"

definition CheckAddressIsContained ::
  "('a \<Rightarrow> 'a \<Rightarrow> bool) \<Rightarrow> 'a list option \<Rightarrow> 'a list option \<Rightarrow> bool" where
  "CheckAddressIsContained subnet_of superset subset' =
     (if py_not superset then True
      else if py_not subset' then False
      else list_all (\<lambda>sub_addr.
             list_ex (\<lambda>sup_addr. subnet_of sub_addr sup_addr) (the superset)) (the subset'))"


text \<open>
  Modelled from the spec: the address objects of \<^verbatim>\<open>aerleon.lib.nacaddr\<close> and their
  \<^verbatim>\<open>subnet_of\<close> are not among the sources. The spec describes them as
  "typed address objects carrying an IP version (4 or 6) and prefix" and containment as
  "every element of the subset is a sub-network of some element of the superset
  (version-aware)". A network is its version with its first and last address, and
  \<open>x\<close> is a sub-network of \<open>y\<close> when the versions agree and the addresses of \<open>x\<close> lie
  within those of \<open>y\<close>. It instantiates the parameters at concrete inputs only.
\<close>

type_synonym ipnet = "nat \<times> nat \<times> nat"

definition ip_subnet_of :: "ipnet \<Rightarrow> ipnet \<Rightarrow> bool" where
  "ip_subnet_of x y =
     (fst x = fst y \<and> fst (snd y) \<le> fst (snd x) \<and> snd (snd x) \<le> snd (snd y))"

section \<open>Validation: \<^verbatim>\<open>Term.SanityCheck\<close>\<close>

text \<open>
  \<^verbatim>\<open>Term.__init__\<close> (lines 423-500) before its closing \<^verbatim>\<open>AddObject\<close>: every
  attribute at its initial value.
\<close>

definition Term_init :: "('a, 'p) Term" where
  "Term_init = \<lparr>
     name = None, action = [], address = [], address_exclude = [],
     restrict_address_family = None, comment = [], counter = None, expiration = None,
     destination_address = [], destination_address_exclude = [], destination_port = [],
     destination_prefix = [], filter_term = None, forwarding_class = [],
     forwarding_class_except = [], logging = [], log_limit = None, log_name = None,
     loss_priority = None, option = [], owner = None, policer = None, port = [],
     precedence = [], protocol = [], protocol_except = [], qos = None,
     pan_application = [], routing_instance = None, source_address = [],
     source_address_exclude = [], source_port = [], source_prefix = [], ttl = None,
     verbatim = [], packet_length = None, fragment_offset = None, hop_limit = None,
     icmp_type = [], icmp_code = [], ether_type = [], traffic_class_count = None,
     traffic_type = [], translated = False, dscp_set = None, dscp_match = [],
     dscp_except = [], next_ip = None, flexible_match_range = [],
     source_prefix_except = [], destination_prefix_except = [], inactive = False,
     encapsulate = None, port_mirror = None, destination_zone = [], source_zone = [],
     vpn = None, source_tag = [], destination_tag = [], priority = None,
     source_interface = None, destination_interface = None, platform = [],
     platform_exclude = [], target_resources = [], target_service_accounts = [],
     timeout = None, flattened = False, flattened_addr = None, flattened_saddr = None,
     flattened_daddr = None, stateless_reply = False \<rparr>"

text \<open>
  The module constants \<^verbatim>\<open>PROTOS_WITH_PORTS\<close>, \<^verbatim>\<open>_MIN_TTL\<close>, \<^verbatim>\<open>_MAX_TTL\<close>
  (lines 39, 55, 56) and the class tables \<^verbatim>\<open>Term.ICMP_TYPE\<close> (lines 356-408) and
  \<^verbatim>\<open>Term.ICMP_CODE\<close> (lines 409-419), dictionaries written as association lists.
\<close>

definition PROTOS_WITH_PORTS :: "string list" where
  "PROTOS_WITH_PORTS = [''tcp'', ''udp'', ''udplite'', ''sctp'']"

definition MIN_TTL :: int where "MIN_TTL = 0"

definition MAX_TTL :: int where "MAX_TTL = 255"

definition ICMP_TYPE_4 :: "(string \<times> int) list" where
  "ICMP_TYPE_4 =
    [(''echo-reply'', 0), (''unreachable'', 3), (''source-quench'', 4), (''redirect'', 5),
     (''alternate-address'', 6), (''echo-request'', 8), (''router-advertisement'', 9),
     (''router-solicitation'', 10), (''time-exceeded'', 11), (''parameter-problem'', 12),
     (''timestamp-request'', 13), (''timestamp-reply'', 14), (''information-request'', 15),
     (''information-reply'', 16), (''mask-request'', 17), (''mask-reply'', 18),
     (''conversion-error'', 31), (''mobile-redirect'', 32)]"

definition ICMP_TYPE_6 :: "(string \<times> int) list" where
  "ICMP_TYPE_6 =
    [(''destination-unreachable'', 1), (''packet-too-big'', 2), (''time-exceeded'', 3),
     (''parameter-problem'', 4), (''echo-request'', 128), (''echo-reply'', 129),
     (''multicast-listener-query'', 130), (''multicast-listener-report'', 131),
     (''multicast-listener-done'', 132), (''router-solicit'', 133),
     (''router-advertisement'', 134), (''neighbor-solicit'', 135),
     (''neighbor-advertisement'', 136), (''redirect-message'', 137),
     (''router-renumbering'', 138), (''icmp-node-information-query'', 139),
     (''icmp-node-information-response'', 140),
     (''inverse-neighbor-discovery-solicitation'', 141),
     (''inverse-neighbor-discovery-advertisement'', 142),
     (''version-2-multicast-listener-report'', 143),
     (''home-agent-address-discovery-request'', 144),
     (''home-agent-address-discovery-reply'', 145),
     (''mobile-prefix-solicitation'', 146), (''mobile-prefix-advertisement'', 147),
     (''certification-path-solicitation'', 148),
     (''certification-path-advertisement'', 149),
     (''multicast-router-advertisement'', 151),
     (''multicast-router-solicitation'', 152),
     (''multicast-router-termination'', 153)]"

definition ICMP_CODE :: "(string \<times> int list) list" where
  "ICMP_CODE =
    [(''unreachable'', [0, 1, 2, 3, 4, 5, 6, 7, 8, 9, 10, 11, 12, 13, 14, 15]),
     (''redirect'', [0, 1, 2, 3]),
     (''router-advertisement'', [0, 16]),
     (''time-exceeded'', [0, 1]),
     (''destination-unreachable'', [0, 1, 2, 3, 4, 5, 6, 7]),
     (''parameter-problem'', [0, 1, 2, 3]),
     (''router-renumbering'', [0, 1, 255]),
     (''icmp-node-information-query'', [0, 1, 2]),
     (''icmp-node-information-response'', [0, 1, 2])]"

text \<open>
  Truth values of attributes: \<^verbatim>\<open>None\<close> and the empty string are false, as are
  \<^verbatim>\<open>None\<close> and \<open>0\<close> for an integer; \<^const>\<open>py_not\<close> covers \<^verbatim>\<open>None\<close> or a list.
  \<^verbatim>\<open>str.isnumeric\<close> and \<^verbatim>\<open>int\<close> on the ASCII strings of the model: a non-empty
  string of decimal digits, and its value.
\<close>

definition truthy :: "string option \<Rightarrow> bool" where
  "truthy x = (case x of None \<Rightarrow> False | Some s \<Rightarrow> s \<noteq> [])"

definition truthy_int :: "int option \<Rightarrow> bool" where
  "truthy_int x = (case x of None \<Rightarrow> False | Some n \<Rightarrow> n \<noteq> 0)"

definition is_digit :: "char \<Rightarrow> bool" where
  "is_digit c = (c \<in> set ''0123456789'')"

definition isnumeric :: "string \<Rightarrow> bool" where
  "isnumeric s = (s \<noteq> [] \<and> list_all is_digit s)"

definition digit_val :: "char \<Rightarrow> int" where
  "digit_val c = int (of_char c) - 48"

definition int_of_digits :: "string \<Rightarrow> int" where
  "int_of_digits s = foldl (\<lambda>n c. 10 * n + digit_val c) 0 s"

text \<open>
  \<^verbatim>\<open>Term.SanityCheck\<close> (lines 1271-1394), one definition per block of the method, each
  giving the exception the block raises, if any; \<open>SanityCheck\<close> runs them in the order of
  the source, the first exception ending the call.

  Lines 1294-1335: the \<^verbatim>\<open>if self.verbatim: ... else: ...\<close> statement.
\<close>

definition sanity_verbatim_action :: "('a, 'p) Term \<Rightarrow> error option" where
  "sanity_verbatim_action self =
     (if verbatim self \<noteq> [] then
        (if action self \<noteq> [] \<or> source_port self \<noteq> [] \<or> destination_port self \<noteq> []
            \<or> port self \<noteq> [] \<or> protocol self \<noteq> [] \<or> option self \<noteq> []
         then Some ParseError else None)
      else if action self = [] \<and> \<not> truthy (routing_instance self) \<and> py_not (next_ip self)
          \<and> \<not> truthy (encapsulate self) \<and> \<not> truthy (filter_term self)
          \<and> \<not> truthy (port_mirror self)
        then Some TermNoActionError
      else if truthy (filter_term self) \<and> action self \<noteq> []
        then Some InvalidTermActionError
      else
        (let protos_no_ports = set (filter (\<lambda>p. p \<notin> set PROTOS_WITH_PORTS) (protocol self))
         in if protos_no_ports \<noteq> {}
               \<and> (source_port self \<noteq> [] \<or> destination_port self \<noteq> [] \<or> port self \<noteq> [])
            then (if set (protocol self) - protos_no_ports \<noteq> {}
                  then Some MixedPortandNonPortProtos
                  else Some TermPortProtocolError)
            else None))"

text \<open>Lines 1340-1357: ether-type with upper-layer restrictions.\<close>

definition sanity_ether_type :: "('a, 'p) Term \<Rightarrow> error option" where
  "sanity_ether_type self =
     (if ether_type self \<noteq> []
         \<and> (protocol self \<noteq> [] \<or> address self \<noteq> [] \<or> destination_address self \<noteq> []
            \<or> destination_address_exclude self \<noteq> [] \<or> destination_port self \<noteq> []
            \<or> destination_prefix self \<noteq> [] \<or> destination_prefix_except self \<noteq> []
            \<or> source_address self \<noteq> [] \<or> source_address_exclude self \<noteq> []
            \<or> source_port self \<noteq> [] \<or> source_prefix self \<noteq> []
            \<or> source_prefix_except self \<noteq> [])
      then Some TermProtocolEtherTypeError else None)"

text \<open>
  Lines 1360-1375: icmp codes. \<^verbatim>\<open>self.ICMP_CODE[type_name]\<close> is a dictionary
  subscript: a type name that is not a key of \<^verbatim>\<open>ICMP_CODE\<close> raises \<^verbatim>\<open>KeyError\<close>
  at the first code.
\<close>

definition sanity_icmp_code :: "('a, 'p) Term \<Rightarrow> error option" where
  "sanity_icmp_code self =
     (if icmp_code self \<noteq> [] then
        (if length (icmp_type self) \<noteq> 1 then Some ICMPCodeError
         else
           (let type_name = icmp_type self ! 0 in
            case map_of ICMP_CODE type_name of
              None \<Rightarrow> Some (KeyError type_name)
            | Some valid \<Rightarrow>
                (let bad_codes = filter (\<lambda>c. c \<notin> set valid) (icmp_code self)
                 in if bad_codes \<noteq> [] then Some ICMPCodeError else None)))
      else None)"

text \<open>Lines 1376-1381, 1383-1388 and 1389-1394: icmp type names, TTL, numeric protocols.\<close>

definition sanity_icmp_type :: "('a, 'p) Term \<Rightarrow> error option" where
  "sanity_icmp_type self =
     (if list_ex (\<lambda>icmptype. map_of ICMP_TYPE_4 icmptype = None
                            \<and> map_of ICMP_TYPE_6 icmptype = None) (icmp_type self)
      then Some TermInvalidIcmpType else None)"

definition sanity_ttl :: "('a, 'p) Term \<Rightarrow> error option" where
  "sanity_ttl self =
     (if truthy_int (ttl self) \<and> \<not> (MIN_TTL \<le> the (ttl self) \<and> the (ttl self) \<le> MAX_TTL)
      then Some InvalidTermTTLValue else None)"

definition sanity_numeric_proto :: "('a, 'p) Term \<Rightarrow> error option" where
  "sanity_numeric_proto self =
     (if list_ex (\<lambda>proto. isnumeric proto
                          \<and> (int_of_digits proto < 0 \<or> 255 < int_of_digits proto))
           (protocol self)
      then Some InvalidNumericProtoValue else None)"

fun first_error :: "error option list \<Rightarrow> error + unit" where
  "first_error [] = Inr ()"
| "first_error (None # es) = first_error es"
| "first_error (Some e # es) = Inl e"

definition SanityCheck :: "('a, 'p) Term \<Rightarrow> error + unit" where
  "SanityCheck self =
     first_error [sanity_verbatim_action self, sanity_ether_type self, sanity_icmp_code self,
                  sanity_icmp_type self, sanity_ttl self, sanity_numeric_proto self]"

section \<open>Containment: \<^verbatim>\<open>Term.__contains__\<close>\<close>

text \<open>
  \<^verbatim>\<open>Term.FlattenAll\<close> (lines 1027-1064). The method sets \<^verbatim>\<open>self.flattened\<close> first.
  Without excludes it points the three \<^verbatim>\<open>flattened_*\<close> attributes at the address
  lists and returns. With an exclude list for a field it stores
  \<^verbatim>\<open>nacaddr.AddressListExclude(field, field_exclude, collapse_addrs=False)\<close> in the
  field's \<^verbatim>\<open>flattened_*\<close> attribute and, when \<^verbatim>\<open>mutate\<close> is set (the default),
  in the field itself; a field without excludes keeps the \<^verbatim>\<open>flattened_*\<close> value it
  had. \<open>AddressListExclude\<close> is the library function at \<^verbatim>\<open>collapse_addrs=False\<close>.
\<close>

definition FlattenAll ::
  "('a list \<Rightarrow> 'a list \<Rightarrow> 'a list) \<Rightarrow> bool \<Rightarrow> ('a, int \<times> int) Term \<Rightarrow> ('a, int \<times> int) Term" where
  "FlattenAll AddressListExclude mutate self =
     (let s0 = self\<lparr>flattened := True\<rparr> in
      if \<not> (source_address_exclude s0 \<noteq> [] \<or> destination_address_exclude s0 \<noteq> []
             \<or> address_exclude s0 \<noteq> [])
      then s0\<lparr>flattened_saddr := Some (source_address s0),
              flattened_daddr := Some (destination_address s0),
              flattened_addr := Some (address s0)\<rparr>
      else
       (let s1 = (if source_address_exclude s0 \<noteq> [] then
                    (let s = s0\<lparr>flattened_saddr := Some (AddressListExclude
                                  (source_address s0) (source_address_exclude s0))\<rparr>
                     in if mutate then s\<lparr>source_address := the (flattened_saddr s)\<rparr> else s)
                  else s0);
            s2 = (if destination_address_exclude s1 \<noteq> [] then
                    (let s = s1\<lparr>flattened_daddr := Some (AddressListExclude
                                  (destination_address s1) (destination_address_exclude s1))\<rparr>
                     in if mutate then s\<lparr>destination_address := the (flattened_daddr s)\<rparr>
                        else s)
                  else s1);
            s3 = (if address_exclude s2 \<noteq> [] then
                    (let s = s2\<lparr>flattened_addr := Some (AddressListExclude
                                  (address s2) (address_exclude s2))\<rparr>
                     in if mutate then s\<lparr>address := the (flattened_addr s)\<rparr> else s)
                  else s2)
        in s3))"

text \<open>
  \<^verbatim>\<open>s.split('-')\<close> and \<^verbatim>\<open>[int(x) for x in s.split('-')]\<close>. The strings are built
  by the parser from integer tokens; \<^verbatim>\<open>int\<close> is modelled on strings of decimal digits,
  and every other string (the empty one among them) raises \<^verbatim>\<open>ValueError\<close>.
\<close>

fun split_dash :: "string \<Rightarrow> string list" where
  "split_dash [] = [[]]"
| "split_dash (c # cs) =
     (if c = CHR ''-'' then [] # split_dash cs
      else (case split_dash cs of [] \<Rightarrow> [[c]] | w # ws \<Rightarrow> (c # w) # ws))"

definition py_int :: "string \<Rightarrow> error + int" where
  "py_int s = (if isnumeric s then Inr (int_of_digits s) else Inl ValueError)"

fun ints_of :: "string list \<Rightarrow> error + int list" where
  "ints_of [] = Inr []"
| "ints_of (w # ws) =
     (case py_int w of
        Inl e \<Rightarrow> Inl e
      | Inr n \<Rightarrow> (case ints_of ws of Inl e \<Rightarrow> Inl e | Inr ns \<Rightarrow> Inr (n # ns)))"

definition dash_ints :: "string \<Rightarrow> error + int list" where
  "dash_ints s = ints_of (split_dash s)"

text \<open>
  \<^verbatim>\<open>sorted(a) is not sorted(b)\<close> (lines 677-698). \<^verbatim>\<open>sorted\<close> returns a newly
  allocated list, and \<^verbatim>\<open>is not\<close> compares the identities of its operands, not their
  contents. An object is its identity with its contents; \<open>py_sorted\<close> takes the next
  free identity and returns the object with the identity after it.
\<close>

type_synonym 'b pyobj = "nat \<times> 'b"

definition py_sorted :: "nat \<Rightarrow> ('b::linorder) list \<Rightarrow> 'b list pyobj \<times> nat" where
  "py_sorted fresh xs = ((fresh, sort xs), Suc fresh)"

definition py_is_not :: "'b pyobj \<Rightarrow> 'b pyobj \<Rightarrow> bool" where
  "py_is_not x y = (fst x \<noteq> fst y)"

definition sorted_is_not_sorted :: "('b::linorder) list \<Rightarrow> 'b list \<Rightarrow> bool" where
  "sorted_is_not_sorted xs ys =
     (let (x, fresh) = py_sorted 0 xs;
          (y, fresh') = py_sorted fresh ys
      in py_is_not x y)"

text \<open>
  The body of \<^verbatim>\<open>Term.__contains__\<close> (lines 506-701) is a sequence of blocks, each of
  which returns False, raises, or falls through to the next. A block is modelled by its
  outcome: \<open>Inr False\<close> for \<^verbatim>\<open>return False\<close>, \<open>Inl e\<close> for an exception and
  \<open>Inr True\<close> for falling through; \<open>first_failure\<close> runs blocks in order.
\<close>

fun first_failure :: "(error + bool) list \<Rightarrow> error + bool" where
  "first_failure [] = Inr True"
| "first_failure (Inr True # rs) = first_failure rs"
| "first_failure (Inr False # rs) = Inr False"
| "first_failure (Inl e # rs) = Inl e"

text \<open>
  Lines 508-511 (verbatim) and 515-535 (protocols). With \<^verbatim>\<open>self.protocol\<close> set and
  \<^verbatim>\<open>other.protocol\<close> empty, both remaining branches return False.
\<close>

definition contains_verbatim :: "('a, int \<times> int) Term \<Rightarrow> ('a, int \<times> int) Term \<Rightarrow> bool" where
  "contains_verbatim self other =
     (if verbatim self \<noteq> [] \<or> verbatim other \<noteq> []
      then sort (verbatim self) = sort (verbatim other) else True)"

definition contains_protocol :: "('a, int \<times> int) Term \<Rightarrow> ('a, int \<times> int) Term \<Rightarrow> bool" where
  "contains_protocol self other =
     (if protocol self \<noteq> [] then
        (if protocol other \<noteq> []
         then CheckProtocolIsContained (protocol other) (protocol self)
         else False)
      else if protocol_except self \<noteq> [] then
        (if protocol_except other \<noteq> []
         then CheckProtocolIsContained (protocol_except self) (protocol_except other)
         else if protocol other \<noteq> []
         then list_all (\<lambda>proto. proto \<notin> set (protocol_except self)) (protocol other)
         else False)
      else True)"

text \<open>Lines 545-566 (flattened addresses) and 571-581 (ports).\<close>

definition contains_address :: "('a \<Rightarrow> 'a \<Rightarrow> bool) \<Rightarrow> ('a, int \<times> int) Term \<Rightarrow> ('a, int \<times> int) Term \<Rightarrow> bool" where
  "contains_address subnet_of self other =
     ((CheckAddressIsContained subnet_of (flattened_addr self) (flattened_addr other)
        \<or> CheckAddressIsContained subnet_of (flattened_addr self) (flattened_saddr other)
        \<or> CheckAddressIsContained subnet_of (flattened_addr self) (flattened_daddr other))
      \<and> (CheckAddressIsContained subnet_of (flattened_addr other) (flattened_saddr self)
        \<and> CheckAddressIsContained subnet_of (flattened_addr other) (flattened_daddr self))
      \<and> CheckAddressIsContained subnet_of (flattened_saddr self) (flattened_saddr other)
      \<and> CheckAddressIsContained subnet_of (flattened_daddr self) (flattened_daddr other))"

definition contains_port :: "('a, int \<times> int) Term \<Rightarrow> ('a, int \<times> int) Term \<Rightarrow> bool" where
  "contains_port self other =
     ((if port self \<noteq> [] then
         CheckPortIsContained (port self) (port other)
         \<or> CheckPortIsContained (port self) (source_port other)
         \<or> CheckPortIsContained (port self) (destination_port other)
       else True)
      \<and> CheckPortIsContained (source_port self) (source_port other)
      \<and> CheckPortIsContained (destination_port self) (destination_port other))"

text \<open>Lines 584-602: prefix lists and tags, compared as sorted lists.\<close>

definition contains_prefix :: "('a, int \<times> int) Term \<Rightarrow> ('a, int \<times> int) Term \<Rightarrow> bool" where
  "contains_prefix self other =
     ((if source_prefix self \<noteq> []
       then sort (source_prefix self) = sort (source_prefix other) else True)
      \<and> (if source_prefix_except self \<noteq> []
         then sort (source_prefix_except self) = sort (source_prefix_except other) else True)
      \<and> (if destination_prefix self \<noteq> []
         then sort (destination_prefix self) = sort (destination_prefix other) else True)
      \<and> (if destination_prefix_except self \<noteq> []
         then sort (destination_prefix_except self) = sort (destination_prefix_except other)
         else True))"

definition contains_tag :: "('a, int \<times> int) Term \<Rightarrow> ('a, int \<times> int) Term \<Rightarrow> bool" where
  "contains_tag self other =
     (if source_tag self \<noteq> []
      then sort (source_tag self) = sort (source_tag other)
         \<and> sort (destination_tag self) = sort (destination_tag other)
      else True)"

text \<open>
  Lines 605-640: precedence, options, forwarding classes, next-ip, encapsulate. The loop
  \<^verbatim>\<open>for x in other.f: if x not in self.f: return False\<close> is \<^const>\<open>list_all\<close>.
\<close>

definition contains_members :: "'b list \<Rightarrow> 'b list \<Rightarrow> bool" where
  "contains_members mine theirs =
     (if theirs = [] then False else list_all (\<lambda>x. x \<in> set mine) theirs)"

definition contains_precedence :: "('a, int \<times> int) Term \<Rightarrow> ('a, int \<times> int) Term \<Rightarrow> bool" where
  "contains_precedence self other =
     (if precedence self \<noteq> [] then contains_members (precedence self) (precedence other)
      else if precedence other \<noteq> [] then False else True)"

definition contains_option :: "('a, int \<times> int) Term \<Rightarrow> ('a, int \<times> int) Term \<Rightarrow> bool" where
  "contains_option self other =
     (if option self \<noteq> [] then contains_members (option self) (option other)
      else if option other \<noteq> [] then False else True)"

definition contains_forwarding_class :: "('a, int \<times> int) Term \<Rightarrow> ('a, int \<times> int) Term \<Rightarrow> bool" where
  "contains_forwarding_class self other =
     ((if forwarding_class self \<noteq> []
       then contains_members (forwarding_class self) (forwarding_class other) else True)
      \<and> (if forwarding_class_except self \<noteq> []
         then contains_members (forwarding_class_except self) (forwarding_class_except other)
         else True))"

definition contains_next_ip :: "('a, int \<times> int) Term \<Rightarrow> ('a, int \<times> int) Term \<Rightarrow> bool" where
  "contains_next_ip self other =
     ((if \<not> py_not (next_ip self) then \<not> py_not (next_ip other) else True)
      \<and> (if truthy (encapsulate self) then truthy (encapsulate other) else True))"

text \<open>
  Lines 641-671: fragment offset, hop limit and packet length. \<^verbatim>\<open>x[0]\<close> is
  \<^const>\<open>hd\<close> (the list a split gives is never empty), \<^verbatim>\<open>x[1:]\<close> is \<^const>\<open>tl\<close>
  and \<^verbatim>\<open>x[1:2]\<close> is \<open>take 1 (tl x)\<close>; lists compare lexicographically.
\<close>

definition contains_fragment_offset :: "('a, int \<times> int) Term \<Rightarrow> ('a, int \<times> int) Term \<Rightarrow> error + bool" where
  "contains_fragment_offset self other =
     (if truthy (fragment_offset self) then
        (case dash_ints (the (fragment_offset self)) of
           Inl e \<Rightarrow> Inl e
         | Inr si \<Rightarrow>
            (let sfo = sort si in
             if truthy (fragment_offset other) then
               (case dash_ints (the (fragment_offset other)) of
                  Inl e \<Rightarrow> Inl e
                | Inr oi \<Rightarrow>
                   (let ofo = sort oi in
                    if hd ofo < hd sfo \<or> tl sfo < tl ofo then Inr False else Inr True))
             else Inr False))
      else Inr True)"

definition contains_hop_limit :: "('a, int \<times> int) Term \<Rightarrow> ('a, int \<times> int) Term \<Rightarrow> error + bool" where
  "contains_hop_limit self other =
     (if truthy (hop_limit self) then
        (case dash_ints (the (hop_limit self)) of
           Inl e \<Rightarrow> Inl e
         | Inr shl \<Rightarrow>
            (if truthy (hop_limit other) then
               (case dash_ints (the (hop_limit other)) of
                  Inl e \<Rightarrow> Inl e
                | Inr ohl \<Rightarrow>
                   (if hd shl < hd ohl then Inr False
                    else
                      (let shll = take 1 (tl shl); ohll = take 1 (tl ohl) in
                       if shll \<noteq> [] \<and> ohll \<noteq> [] \<and> hd shl > hd ohl then Inr False
                       else Inr True)))
             else Inr False))
      else Inr True)"

definition contains_packet_length :: "('a, int \<times> int) Term \<Rightarrow> ('a, int \<times> int) Term \<Rightarrow> error + bool" where
  "contains_packet_length self other =
     (if truthy (packet_length self) then
        (case dash_ints (the (packet_length self)) of
           Inl e \<Rightarrow> Inl e
         | Inr spl \<Rightarrow>
            (if truthy (packet_length other) then
               (case dash_ints (the (packet_length other)) of
                  Inl e \<Rightarrow> Inl e
                | Inr opl \<Rightarrow>
                   (if hd spl < hd opl \<or> sort (tl spl) > sort (tl opl) then Inr False
                    else Inr True))
             else Inr False))
      else Inr True)"

definition contains_port_mirror :: "('a, int \<times> int) Term \<Rightarrow> ('a, int \<times> int) Term \<Rightarrow> bool" where
  "contains_port_mirror self other =
     (if truthy (port_mirror self) then truthy (port_mirror other) else True)"

text \<open>
  Lines 676-698: icmp type and code, platform, platform-exclude and the zones. Each block
  is \<^verbatim>\<open>if self.f: if sorted(self.f) is not sorted(other.f): return False\<close>.
\<close>

definition contains_identity :: "('b::linorder) list \<Rightarrow> 'b list \<Rightarrow> bool" where
  "contains_identity mine theirs =
     (if mine \<noteq> [] then \<not> sorted_is_not_sorted mine theirs else True)"

text \<open>
  The blocks from the addresses on, on the two terms as \<^verbatim>\<open>FlattenAll\<close> has left
  them.
\<close>

definition contains_flattened ::
  "('a \<Rightarrow> 'a \<Rightarrow> bool) \<Rightarrow> ('a, int \<times> int) Term \<Rightarrow> ('a, int \<times> int) Term \<Rightarrow> error + bool" where
  "contains_flattened subnet_of self other =
     first_failure
       [Inr (contains_address subnet_of self other),
        Inr (contains_port self other),
        Inr (contains_prefix self other),
        Inr (contains_tag self other),
        Inr (contains_precedence self other),
        Inr (contains_option self other),
        Inr (contains_forwarding_class self other),
        Inr (contains_next_ip self other),
        contains_fragment_offset self other,
        contains_hop_limit self other,
        contains_packet_length self other,
        Inr (contains_port_mirror self other),
        Inr (contains_identity (icmp_type self) (icmp_type other)),
        Inr (contains_identity (icmp_code self) (icmp_code other)),
        Inr (contains_identity (platform self) (platform other)),
        Inr (contains_identity (platform_exclude self) (platform_exclude other)),
        Inr (contains_identity (source_zone self) (source_zone other)),
        Inr (contains_identity (destination_zone self) (destination_zone other))]"

text \<open>
  \<^verbatim>\<open>A.__contains__(B)\<close>, that is \<^verbatim>\<open>B in A\<close>: the outcome, and the two terms as the
  call leaves them. The two terms are distinct objects.
\<close>

definition Term_contains ::
  "('a list \<Rightarrow> 'a list \<Rightarrow> 'a list) \<Rightarrow> ('a \<Rightarrow> 'a \<Rightarrow> bool) \<Rightarrow> ('a, int \<times> int) Term \<Rightarrow> ('a, int \<times> int) Term
     \<Rightarrow> (error + bool) \<times> ('a, int \<times> int) Term \<times> ('a, int \<times> int) Term" where
  "Term_contains AddressListExclude subnet_of self other =
     (if \<not> contains_verbatim self other then (Inr False, self, other)
      else if \<not> contains_protocol self other then (Inr False, self, other)
      else
       (let self' = (if \<not> flattened self then FlattenAll AddressListExclude True self
                     else self);
            other' = (if \<not> flattened other then FlattenAll AddressListExclude True other
                      else other)
        in (contains_flattened subnet_of self' other', self', other')))"

section \<open>Shading: \<^verbatim>\<open>Policy._DetectShading\<close>\<close>

text \<open>
  \<^verbatim>\<open>Policy._DetectShading\<close> (lines 271-286). The state of the loops is the list of
  terms (objects that \<^verbatim>\<open>__contains__\<close> may change), the warnings logged so far, and
  the exception that ended the call, if any. \<open>shade_pair\<close> is the body of the inner loop
  at \<open>(index, prior_index)\<close>; the two loops visit the pairs of \<open>shade_pairs\<close> in order.
  \<^verbatim>\<open>f"{term.name}"\<close> of a name that is \<^verbatim>\<open>None\<close> is the text \<^verbatim>\<open>None\<close>. The terms
  of the list are distinct objects.
\<close>

record 'a shading =
  sh_terms :: "('a, int \<times> int) Term list"
  sh_warnings :: "string list"
  sh_raised :: "error option"

definition str_name :: "string option \<Rightarrow> string" where
  "str_name n = (case n of None \<Rightarrow> ''None'' | Some s \<Rightarrow> s)"

definition shade_pair ::
  "('a list \<Rightarrow> 'a list \<Rightarrow> 'a list) \<Rightarrow> ('a \<Rightarrow> 'a \<Rightarrow> bool) \<Rightarrow> 'a shading \<Rightarrow> nat \<times> nat
     \<Rightarrow> 'a shading" where
  "shade_pair AddressListExclude subnet_of st ip =
     (if sh_raised st \<noteq> None then st
      else
       (let index = fst ip; prior_index = snd ip;
            r = Term_contains AddressListExclude subnet_of
                  (sh_terms st ! prior_index) (sh_terms st ! index);
            ts = (sh_terms st)[prior_index := fst (snd r), index := snd (snd r)]
        in case fst r of
             Inl e \<Rightarrow> st\<lparr>sh_terms := ts, sh_raised := Some e\<rparr>
           | Inr b \<Rightarrow>
              (if b \<and> ''next'' \<notin> set (action (ts ! prior_index))
               then st\<lparr>sh_terms := ts,
                       sh_warnings := sh_warnings st @
                         [str_name (name (ts ! index)) @ '' is shaded by ''
                            @ str_name (name (ts ! prior_index))]\<rparr>
               else st\<lparr>sh_terms := ts\<rparr>)))"

definition shade_pairs :: "nat \<Rightarrow> (nat \<times> nat) list" where
  "shade_pairs n = concat (map (\<lambda>i. map (\<lambda>j. (i, j)) [0..<i]) [0..<n])"

definition DetectShading ::
  "('a list \<Rightarrow> 'a list \<Rightarrow> 'a list) \<Rightarrow> ('a \<Rightarrow> 'a \<Rightarrow> bool) \<Rightarrow> ('a, int \<times> int) Term list \<Rightarrow> 'a shading" where
  "DetectShading AddressListExclude subnet_of terms =
     foldl (shade_pair AddressListExclude subnet_of)
       \<lparr>sh_terms = terms, sh_warnings = [], sh_raised = None\<rparr>
       (shade_pairs (length terms))"

text \<open>
  Modelled from the spec: \<^verbatim>\<open>nacaddr.AddressListExclude\<close> is not among the sources.
  The spec calls flattening "computing a term's effective address set after subtracting
  its exclude lists". On the networks above, an address less an exclude of the same
  version is what remains of it below and above the exclude, and a list less a list of
  excludes takes the excludes away one by one. It instantiates the parameter at concrete
  inputs only.
\<close>

definition ip_exclude :: "ipnet \<Rightarrow> ipnet \<Rightarrow> ipnet list" where
  "ip_exclude a e =
     (if fst a \<noteq> fst e \<or> snd (snd e) < fst (snd a) \<or> snd (snd a) < fst (snd e) then [a]
      else (if fst (snd a) < fst (snd e) then [(fst a, fst (snd a), fst (snd e) - 1)] else [])
         @ (if snd (snd e) < snd (snd a) then [(fst a, snd (snd e) + 1, snd (snd a))] else []))"

definition ip_list_exclude :: "ipnet list \<Rightarrow> ipnet list \<Rightarrow> ipnet list" where
  "ip_list_exclude addrs excludes =
     foldl (\<lambda>acc e. concat (map (\<lambda>a. ip_exclude a e) acc)) addrs excludes"

text \<open>
  What the shading pass is compared with. \<open>same_or_flattened t' t\<close>: the term \<open>t'\<close> is
  \<open>t\<close>, or \<open>t\<close> was not flattened and \<open>t'\<close> is what the default \<^verbatim>\<open>FlattenAll()\<close> makes of
  it. \<open>unflattened\<close> blanks the attributes \<^verbatim>\<open>FlattenAll\<close> may write: the flag, the
  three cached lists, and each address list that has excludes. \<open>shaded_by\<close> is the
  spec's condition on a pair \<open>(index, prior_index)\<close> of the terms as given: the prior term
  contains the term and its action list has no \<^verbatim>\<open>next\<close>; \<open>shade_msg\<close> is the warning
  for the pair.
\<close>

definition same_or_flattened ::
  "('a list \<Rightarrow> 'a list \<Rightarrow> 'a list) \<Rightarrow> ('a, int \<times> int) Term \<Rightarrow> ('a, int \<times> int) Term \<Rightarrow> bool" where
  "same_or_flattened AddressListExclude t' t =
     (t' = t \<or> (\<not> flattened t \<and> t' = FlattenAll AddressListExclude True t))"

definition unflattened :: "('a, int \<times> int) Term \<Rightarrow> ('a, int \<times> int) Term" where
  "unflattened t =
     t\<lparr>flattened := False, flattened_addr := None, flattened_saddr := None,
       flattened_daddr := None,
       address := (if address_exclude t = [] then address t else []),
       source_address := (if source_address_exclude t = [] then source_address t else []),
       destination_address :=
         (if destination_address_exclude t = [] then destination_address t else [])\<rparr>"

definition shaded_by ::
  "('a list \<Rightarrow> 'a list \<Rightarrow> 'a list) \<Rightarrow> ('a \<Rightarrow> 'a \<Rightarrow> bool) \<Rightarrow> ('a, int \<times> int) Term list \<Rightarrow> nat \<times> nat
     \<Rightarrow> bool" where
  "shaded_by AddressListExclude subnet_of terms ip =
     (fst (Term_contains AddressListExclude subnet_of (terms ! snd ip) (terms ! fst ip))
        = Inr True
      \<and> ''next'' \<notin> set (action (terms ! snd ip)))"

definition shade_msg :: "('a, int \<times> int) Term list \<Rightarrow> nat \<times> nat \<Rightarrow> string" where
  "shade_msg terms ip =
     str_name (name (terms ! fst ip)) @ '' is shaded by '' @ str_name (name (terms ! snd ip))"

text \<open>
  The two guarded calls of lines 538-541:
  \<^verbatim>\<open>if not t.flattened: t.FlattenAll()\<close>.
\<close>

definition flat :: "('a list \<Rightarrow> 'a list \<Rightarrow> 'a list) \<Rightarrow> ('a, int \<times> int) Term \<Rightarrow> ('a, int \<times> int) Term" where
  "flat AddressListExclude t =
     (if \<not> flattened t then FlattenAll AddressListExclude True t else t)"

section \<open>Properties of \<open>CollapsePortList\<close>\<close>

lemma collapse_step_snoc:
  "ret \<noteq> [] \<Longrightarrow> port_gap (last ret) y \<Longrightarrow> collapse_step ret y = ret @ [y]"
  by (auto simp: collapse_step_def port_gap_def)

lemma foldl_collapse_fixed:
  "successively port_gap (ret @ ys) \<Longrightarrow> ret \<noteq> [] \<Longrightarrow> foldl collapse_step ret ys = ret @ ys"
proof (induction ys arbitrary: ret)
  case Nil then show ?case by simp
next
  case (Cons y ys)
  from Cons.prems have g: "port_gap (last ret) y"
    by (auto simp: successively_append_iff)
  have "foldl collapse_step (ret @ [y]) ys = (ret @ [y]) @ ys"
    using Cons.prems by (intro Cons.IH) auto
  with g Cons.prems show ?case by (simp add: collapse_step_snoc)
qed

lemma foldl_collapse_fixed0:
  "successively port_gap xs \<Longrightarrow> foldl collapse_step [] xs = xs"
proof (cases xs)
  case Nil then show ?thesis by simp
next
  case (Cons x xs')
  assume "successively port_gap xs"
  then have "foldl collapse_step [x] xs' = [x] @ xs'"
    using Cons by (intro foldl_collapse_fixed) auto
  then show ?thesis using Cons by (simp add: collapse_step_def)
qed

lemma port_gap_le: "port_gap p q \<Longrightarrow> p \<le> q"
  by (cases p; cases q) (auto simp: port_gap_def)

lemma gap_sorted: "successively port_gap xs \<Longrightarrow> sorted xs"
proof -
  assume "successively port_gap xs"
  then have "successively (\<le>) xs"
    by (rule successively_mono) (rule port_gap_le)
  then show ?thesis
    by (simp add: successively_conv_sorted_wrt)
qed

lemma collapse_step_gap:
  assumes "successively port_gap ret" "ret \<noteq> [] \<Longrightarrow> fst (last ret) \<le> fst y"
  shows "successively port_gap (collapse_step ret y)"
proof (cases "ret = []")
  case True then show ?thesis by (simp add: collapse_step_def)
next
  case False
  then obtain ys z where ret: "ret = ys @ [z]" by (metis rev_exhaust)
  have lz: "fst z \<le> fst y" using assms(2) ret by simp
  have ys: "successively port_gap ys" and yz: "ys \<noteq> [] \<Longrightarrow> port_gap (last ys) z"
    using assms(1) ret by (auto simp: successively_append_iff)
  have ext: "successively port_gap (ys @ [(fst z, snd y)])" if "snd z < snd y"
    using ys yz that by (auto simp: successively_append_iff port_gap_def)
  have app: "successively port_gap (ret @ [y])"
    if "snd z < snd y" "\<not> fst y < snd z" "snd z + 1 \<noteq> fst y"
    using assms(1) that lz ret by (auto simp: successively_append_iff port_gap_def)
  show ?thesis
    using assms(1) ext app ret by (auto simp: collapse_step_def)
qed

lemma collapse_step_last:
  "ret \<noteq> [] \<Longrightarrow> fst (last ret) \<le> fst y \<Longrightarrow> fst y \<le> fst z \<Longrightarrow>
     fst (last (collapse_step ret y)) \<le> fst z"
  by (auto simp: collapse_step_def)

lemma collapse_step_nonempty: "collapse_step ret y \<noteq> []"
  by (auto simp: collapse_step_def)

lemma collapse_step_last0: "fst y \<le> fst z \<Longrightarrow> fst (last (collapse_step [] y)) \<le> fst z"
  by (auto simp: collapse_step_def)

lemma foldl_collapse_gap:
  "successively port_gap ret \<Longrightarrow> sorted ys \<Longrightarrow>
   (ret \<noteq> [] \<Longrightarrow> \<forall>y \<in> set ys. fst (last ret) \<le> fst y) \<Longrightarrow>
   successively port_gap (foldl collapse_step ret ys)"
proof (induction ys arbitrary: ret)
  case Nil then show ?case by simp
next
  case (Cons y ys)
  have fy: "\<forall>z \<in> set ys. fst y \<le> fst z"
    using Cons.prems(2) by (auto simp: less_eq_prod_def)
  have 1: "successively port_gap (collapse_step ret y)"
    using Cons.prems by (intro collapse_step_gap) auto
  have 2: "\<forall>z \<in> set ys. fst (last (collapse_step ret y)) \<le> fst z"
  proof (cases "ret = []")
    case True then show ?thesis using fy by (auto simp: collapse_step_def)
  next
    case False
    then show ?thesis using Cons.prems(3) fy by (auto intro!: collapse_step_last)
  qed
  have "successively port_gap (foldl collapse_step (collapse_step ret y) ys)"
    using 1 2 Cons.prems(2) by (intro Cons.IH) auto
  then show ?case by simp
qed

lemma CollapsePortList_gap: "successively port_gap (CollapsePortList ports)"
  unfolding CollapsePortList_def by (rule foldl_collapse_gap) auto


text \<open>
  C4 (the code at the claim's own example). The claim says that two ranges sharing a
  boundary point, such as (10,20) and (20,30), are merged into one range. The loop merges
  when \<^verbatim>\<open>port[0] < ret_ports[-1][1] < port[1]\<close> (strictly) or when
  \<^verbatim>\<open>ret_ports[-1][1] + 1 == port[0]\<close>; with \<^verbatim>\<open>port[0] == ret_ports[-1][1]\<close>
  neither holds, and both ranges are returned, overlapping in port 20.
\<close>

theorem CollapsePortList_shared_boundary:
  "CollapsePortList [(10, 20), (20, 30)] = [(10, 20), (20, 30)]"
  by (simp add: CollapsePortList_def collapse_step_def)

section \<open>C1: address containment\<close>

text \<open>
  C1 (counterexample). The claim says that \<^verbatim>\<open>CheckAddressIsContained(A, B)\<close> is true
  for an empty \<open>B\<close> and false for an empty \<open>A\<close> unless \<open>B\<close> is empty too. The code tests
  \<^verbatim>\<open>not superset\<close> first and returns True, then \<^verbatim>\<open>not subset\<close> and returns False:
  with \<open>A\<close> = [10.0.0.0/8] and \<open>B\<close> empty it returns False, and with \<open>A\<close> empty and
  \<open>B\<close> = [10.0.0.0/8] it returns True.
\<close>

theorem CheckAddressIsContained_empty_counterexample:
  "CheckAddressIsContained ip_subnet_of (Some [(4, 167772160, 184549375)]) (Some []) = False
   \<and> CheckAddressIsContained ip_subnet_of (Some []) (Some [(4, 167772160, 184549375)]) = True"
  by (simp add: CheckAddressIsContained_def py_not_def)

text \<open>
  C1 (amended). \<^verbatim>\<open>CheckAddressIsContained(A, B)\<close> returns true whenever \<open>A\<close> is empty
  (an empty superset restricts nothing), whatever \<open>B\<close> is; for a non-empty \<open>A\<close> it
  returns false when \<open>B\<close> is empty, and for a non-empty \<open>B\<close> it returns true exactly when
  every element of \<open>B\<close> is a sub-network of some element of \<open>A\<close>.
\<close>

theorem CheckAddressIsContained_spec:
  "CheckAddressIsContained subnet_of (Some A) (Some B) =
     (A = [] \<or> (B \<noteq> [] \<and> (\<forall>b \<in> set B. \<exists>a \<in> set A. subnet_of b a)))"
  by (auto simp: CheckAddressIsContained_def py_not_def list_all_iff list_ex_iff)

theorem CheckAddressIsContained_spec_witness:
  "CheckAddressIsContained ip_subnet_of
      (Some [(4, 167772160, 184549375), (6, 0, 255)])
      (Some [(4, 167772160, 167772415), (6, 16, 31)]) = True
   \<and> CheckAddressIsContained ip_subnet_of
      (Some [(4, 167772160, 184549375)]) (Some [(6, 16, 31)]) = False"
  using CheckAddressIsContained_spec [of ip_subnet_of
      "[(4, 167772160, 184549375), (6, 0, 255)]" "[(4, 167772160, 167772415), (6, 16, 31)]"]
    CheckAddressIsContained_spec [of ip_subnet_of "[(4, 167772160, 184549375)]" "[(6, 16, 31)]"]
  by (simp add: ip_subnet_of_def)

section \<open>The initial term\<close>

lemma Term_init_sel [simp]:
    "name Term_init = None"
    "action Term_init = []"
    "address Term_init = []"
    "address_exclude Term_init = []"
    "restrict_address_family Term_init = None"
    "comment Term_init = []"
    "counter Term_init = None"
    "expiration Term_init = None"
    "destination_address Term_init = []"
    "destination_address_exclude Term_init = []"
    "destination_port Term_init = []"
    "destination_prefix Term_init = []"
    "filter_term Term_init = None"
    "forwarding_class Term_init = []"
    "forwarding_class_except Term_init = []"
    "logging Term_init = []"
    "log_limit Term_init = None"
    "log_name Term_init = None"
    "loss_priority Term_init = None"
    "option Term_init = []"
    "owner Term_init = None"
    "policer Term_init = None"
    "port Term_init = []"
    "precedence Term_init = []"
    "protocol Term_init = []"
    "protocol_except Term_init = []"
    "qos Term_init = None"
    "pan_application Term_init = []"
    "routing_instance Term_init = None"
    "source_address Term_init = []"
    "source_address_exclude Term_init = []"
    "source_port Term_init = []"
    "source_prefix Term_init = []"
    "ttl Term_init = None"
    "verbatim Term_init = []"
    "packet_length Term_init = None"
    "fragment_offset Term_init = None"
    "hop_limit Term_init = None"
    "icmp_type Term_init = []"
    "icmp_code Term_init = []"
    "ether_type Term_init = []"
    "traffic_class_count Term_init = None"
    "traffic_type Term_init = []"
    "translated Term_init = False"
    "dscp_set Term_init = None"
    "dscp_match Term_init = []"
    "dscp_except Term_init = []"
    "next_ip Term_init = None"
    "flexible_match_range Term_init = []"
    "source_prefix_except Term_init = []"
    "destination_prefix_except Term_init = []"
    "inactive Term_init = False"
    "encapsulate Term_init = None"
    "port_mirror Term_init = None"
    "destination_zone Term_init = []"
    "source_zone Term_init = []"
    "vpn Term_init = None"
    "source_tag Term_init = []"
    "destination_tag Term_init = []"
    "priority Term_init = None"
    "source_interface Term_init = None"
    "destination_interface Term_init = None"
    "platform Term_init = []"
    "platform_exclude Term_init = []"
    "target_resources Term_init = []"
    "target_service_accounts Term_init = []"
    "timeout Term_init = None"
    "flattened Term_init = False"
    "flattened_addr Term_init = None"
    "flattened_saddr Term_init = None"
    "flattened_daddr Term_init = None"
    "stateless_reply Term_init = False"
  by (simp_all add: Term_init_def)
section \<open>C6 and C7: validation\<close>

lemma first_error_Cons:
  "first_error (x # es) = (case x of None \<Rightarrow> first_error es | Some e \<Rightarrow> Inl e)"
  by (cases x) simp_all

lemma sanity_icmp_type_cases:
  "sanity_icmp_type self = None \<or> sanity_icmp_type self = Some TermInvalidIcmpType"
  by (simp add: sanity_icmp_type_def)

lemma sanity_ttl_cases:
  "sanity_ttl self = None \<or> sanity_ttl self = Some InvalidTermTTLValue"
  by (simp add: sanity_ttl_def)

lemma sanity_numeric_proto_cases:
  "sanity_numeric_proto self = None \<or> sanity_numeric_proto self = Some InvalidNumericProtoValue"
  by (simp add: sanity_numeric_proto_def)

lemma sanity_ether_type_cases:
  "sanity_ether_type self = None \<or> sanity_ether_type self = Some TermProtocolEtherTypeError"
  by (simp add: sanity_ether_type_def)

lemma SanityCheck_tail_not_ICMPCodeError:
  "first_error [sanity_icmp_type self, sanity_ttl self, sanity_numeric_proto self]
     \<noteq> Inl ICMPCodeError"
  using sanity_icmp_type_cases [of self] sanity_ttl_cases [of self]
    sanity_numeric_proto_cases [of self]
  by auto

text \<open>
  C6 (counterexample). The claim says that every fully-built term with icmp codes fails
  with \<^verbatim>\<open>ICMPCodeError\<close> unless it has exactly one icmp type and every code is valid
  for it, and that icmp-type echo-request with icmp-code 5 fails with
  \<^verbatim>\<open>ICMPCodeError\<close>. A term with no action, icmp-type unreachable and icmp-code 99
  fails earlier, with \<^verbatim>\<open>TermNoActionError\<close>; and the term of the claim's example
  (with an action) raises \<^verbatim>\<open>KeyError\<close>, since echo-request is no key of
  \<^verbatim>\<open>ICMP_CODE\<close>.
\<close>

theorem SanityCheck_icmp_code_counterexample:
  "SanityCheck ((Term_init :: (ipnet, int \<times> int) Term)
       \<lparr>icmp_type := [''unreachable''], icmp_code := [99]\<rparr>) = Inl TermNoActionError
   \<and> SanityCheck ((Term_init :: (ipnet, int \<times> int) Term)
       \<lparr>action := [''accept''], icmp_type := [''echo-request''], icmp_code := [5]\<rparr>)
     = Inl (KeyError ''echo-request'')"
  by (simp add: SanityCheck_def sanity_verbatim_action_def sanity_ether_type_def
      sanity_icmp_code_def truthy_def py_not_def ICMP_CODE_def)

text \<open>
  C6 (amended). For every fully-built term with a non-empty icmp-code list that passes
  the checks \<^verbatim>\<open>SanityCheck\<close> makes before it (verbatim against other tokens, an action
  being present, filter-term against action, ports against protocols, ether-type):
  if the term does not have exactly one icmp type, \<^verbatim>\<open>SanityCheck\<close> fails with
  \<^verbatim>\<open>ICMPCodeError\<close>; and if it has exactly one icmp type and that type has an entry in
  \<^verbatim>\<open>ICMP_CODE\<close>, \<^verbatim>\<open>SanityCheck\<close> fails with \<^verbatim>\<open>ICMPCodeError\<close> exactly when
  some code is not in the type's valid-code list.
\<close>

theorem SanityCheck_icmp_code:
  assumes "icmp_code self \<noteq> []"
    and "sanity_verbatim_action self = None"
    and "sanity_ether_type self = None"
  shows "(length (icmp_type self) \<noteq> 1 \<longrightarrow> SanityCheck self = Inl ICMPCodeError)
       \<and> (icmp_type self = [type_name] \<and> map_of ICMP_CODE type_name = Some valid \<longrightarrow>
           (SanityCheck self = Inl ICMPCodeError) = (\<not> set (icmp_code self) \<subseteq> set valid))"
proof (intro conjI impI)
  assume "length (icmp_type self) \<noteq> 1"
  then show "SanityCheck self = Inl ICMPCodeError"
    using assms by (simp add: SanityCheck_def sanity_icmp_code_def)
next
  assume h: "icmp_type self = [type_name] \<and> map_of ICMP_CODE type_name = Some valid"
  show "(SanityCheck self = Inl ICMPCodeError) = (\<not> set (icmp_code self) \<subseteq> set valid)"
  proof (cases "set (icmp_code self) \<subseteq> set valid")
    case True
    then have "filter (\<lambda>c. c \<notin> set valid) (icmp_code self) = []"
      by (auto simp: filter_empty_conv)
    then have "sanity_icmp_code self = None"
      using h assms(1) by (simp add: sanity_icmp_code_def)
    then have "SanityCheck self =
        first_error [sanity_icmp_type self, sanity_ttl self, sanity_numeric_proto self]"
      using assms by (simp add: SanityCheck_def)
    then show ?thesis
      using True SanityCheck_tail_not_ICMPCodeError [of self] by simp
  next
    case False
    then have "filter (\<lambda>c. c \<notin> set valid) (icmp_code self) \<noteq> []"
      by (auto simp: filter_empty_conv)
    then have "sanity_icmp_code self = Some ICMPCodeError"
      using h assms(1) by (simp add: sanity_icmp_code_def)
    then show ?thesis
      using False assms by (simp add: SanityCheck_def)
  qed
qed

theorem SanityCheck_icmp_code_witness:
  "SanityCheck ((Term_init :: (ipnet, int \<times> int) Term)
       \<lparr>action := [''accept''], icmp_type := [], icmp_code := [1]\<rparr>) = Inl ICMPCodeError
   \<and> SanityCheck ((Term_init :: (ipnet, int \<times> int) Term)
       \<lparr>action := [''accept''], icmp_type := [''unreachable''], icmp_code := [3, 99]\<rparr>)
     = Inl ICMPCodeError
   \<and> SanityCheck ((Term_init :: (ipnet, int \<times> int) Term)
       \<lparr>action := [''accept''], icmp_type := [''unreachable''], icmp_code := [3]\<rparr>)
     \<noteq> Inl ICMPCodeError"
  using
    SanityCheck_icmp_code [of "(Term_init :: (ipnet, int \<times> int) Term)
       \<lparr>action := [''accept''], icmp_type := [], icmp_code := [1]\<rparr>"
       "''unreachable''" "[0, 1, 2, 3, 4, 5, 6, 7, 8, 9, 10, 11, 12, 13, 14, 15]"]
    SanityCheck_icmp_code [of "(Term_init :: (ipnet, int \<times> int) Term)
       \<lparr>action := [''accept''], icmp_type := [''unreachable''], icmp_code := [3, 99]\<rparr>"
       "''unreachable''" "[0, 1, 2, 3, 4, 5, 6, 7, 8, 9, 10, 11, 12, 13, 14, 15]"]
    SanityCheck_icmp_code [of "(Term_init :: (ipnet, int \<times> int) Term)
       \<lparr>action := [''accept''], icmp_type := [''unreachable''], icmp_code := [3]\<rparr>"
       "''unreachable''" "[0, 1, 2, 3, 4, 5, 6, 7, 8, 9, 10, 11, 12, 13, 14, 15]"]
  by (simp add: sanity_verbatim_action_def sanity_ether_type_def truthy_def
      py_not_def ICMP_CODE_def PROTOS_WITH_PORTS_def)


lemma first_error_mem: "first_error es = Inl e \<Longrightarrow> Some e \<in> set es"
  by (induction es rule: first_error.induct) auto

lemma sanity_ether_type_Some:
  "sanity_ether_type self = Some e \<Longrightarrow> e = TermProtocolEtherTypeError"
  using sanity_ether_type_cases [of self] by auto

lemma sanity_icmp_code_Some:
  "sanity_icmp_code self = Some e \<Longrightarrow> e = ICMPCodeError \<or> (\<exists>k. e = KeyError k)"
  by (auto simp: sanity_icmp_code_def Let_def split: if_splits option.splits)

lemma sanity_icmp_type_Some:
  "sanity_icmp_type self = Some e \<Longrightarrow> e = TermInvalidIcmpType"
  using sanity_icmp_type_cases [of self] by auto

lemma sanity_ttl_Some:
  "sanity_ttl self = Some e \<Longrightarrow> e = InvalidTermTTLValue"
  using sanity_ttl_cases [of self] by auto

lemma sanity_numeric_proto_Some:
  "sanity_numeric_proto self = Some e \<Longrightarrow> e = InvalidNumericProtoValue"
  using sanity_numeric_proto_cases [of self] by auto

lemma SanityCheck_port_error_source:
  assumes "SanityCheck self = Inl e"
    and "e = MixedPortandNonPortProtos \<or> e = TermPortProtocolError"
  shows "sanity_verbatim_action self = Some e"
proof -
  from assms(1) have "Some e \<in> set [sanity_verbatim_action self, sanity_ether_type self,
      sanity_icmp_code self, sanity_icmp_type self, sanity_ttl self, sanity_numeric_proto self]"
    unfolding SanityCheck_def by (rule first_error_mem)
  then consider "sanity_verbatim_action self = Some e" | "sanity_ether_type self = Some e"
    | "sanity_icmp_code self = Some e" | "sanity_icmp_type self = Some e"
    | "sanity_ttl self = Some e" | "sanity_numeric_proto self = Some e"
    by auto
  then show ?thesis
  proof cases
    case 1 then show ?thesis .
  next
    case 2 then show ?thesis using sanity_ether_type_Some [of self e] assms(2) by auto
  next
    case 3 then show ?thesis using sanity_icmp_code_Some [of self e] assms(2) by auto
  next
    case 4 then show ?thesis using sanity_icmp_type_Some [of self e] assms(2) by auto
  next
    case 5 then show ?thesis using sanity_ttl_Some [of self e] assms(2) by auto
  next
    case 6 then show ?thesis using sanity_numeric_proto_Some [of self e] assms(2) by auto
  qed
qed

lemma sanity_verbatim_action_ports:
  assumes v: "verbatim self = []"
    and a: "\<not> (action self = [] \<and> \<not> truthy (routing_instance self) \<and> py_not (next_ip self)
          \<and> \<not> truthy (encapsulate self) \<and> \<not> truthy (filter_term self)
          \<and> \<not> truthy (port_mirror self))"
    and f: "\<not> (truthy (filter_term self) \<and> action self \<noteq> [])"
  shows "sanity_verbatim_action self =
     (if \<not> set (protocol self) \<subseteq> set PROTOS_WITH_PORTS
           \<and> (source_port self \<noteq> [] \<or> destination_port self \<noteq> [] \<or> port self \<noteq> [])
      then (if set (protocol self) \<inter> set PROTOS_WITH_PORTS \<noteq> {}
            then Some MixedPortandNonPortProtos else Some TermPortProtocolError)
      else None)"
proof -
  let ?np = "set (filter (\<lambda>p. p \<notin> set PROTOS_WITH_PORTS) (protocol self))"
  have np: "(?np \<noteq> {}) = (\<not> set (protocol self) \<subseteq> set PROTOS_WITH_PORTS)"
    by auto
  have mix: "(set (protocol self) - ?np \<noteq> {})
      = (set (protocol self) \<inter> set PROTOS_WITH_PORTS \<noteq> {})"
    by auto
  have "sanity_verbatim_action self =
     (if ?np \<noteq> {}
           \<and> (source_port self \<noteq> [] \<or> destination_port self \<noteq> [] \<or> port self \<noteq> [])
      then (if set (protocol self) - ?np \<noteq> {}
            then Some MixedPortandNonPortProtos else Some TermPortProtocolError)
      else None)"
    unfolding sanity_verbatim_action_def Let_def
    by (simp only: v a f if_False not_True_eq_False not_False_eq_True simp_thms)
  then show ?thesis by (simp only: np mix)
qed

lemma sanity_verbatim_action_no_port_error:
  assumes "set (protocol self) \<subseteq> set PROTOS_WITH_PORTS"
  shows "sanity_verbatim_action self \<noteq> Some MixedPortandNonPortProtos
      \<and> sanity_verbatim_action self \<noteq> Some TermPortProtocolError"
proof -
  have "filter (\<lambda>p. p \<notin> set PROTOS_WITH_PORTS) (protocol self) = []"
    using assms by (auto simp: filter_empty_conv)
  then show ?thesis
    by (simp add: sanity_verbatim_action_def)
qed
text \<open>
  C7 (counterexample). The claim says that every fully-built term that declares a port
  and has a protocol outside {tcp, udp, udplite, sctp} fails with
  \<^verbatim>\<open>MixedPortandNonPortProtos\<close> or \<^verbatim>\<open>TermPortProtocolError\<close>. The check is in the
  \<^verbatim>\<open>else\<close> branch of \<^verbatim>\<open>if self.verbatim\<close>, after the action checks: a term with
  protocol icmp and port 80 fails with \<^verbatim>\<open>ParseError\<close> when it has verbatim text, with
  \<^verbatim>\<open>TermNoActionError\<close> when it has no action, and with
  \<^verbatim>\<open>InvalidTermActionError\<close> when it has both a filter-term and an action.
\<close>

theorem SanityCheck_port_protocol_counterexample:
  "SanityCheck ((Term_init :: (ipnet, int \<times> int) Term)
       \<lparr>verbatim := [[''juniper'', ''x'']], protocol := [''icmp''], port := [(80, 80)]\<rparr>)
     = Inl ParseError
   \<and> SanityCheck ((Term_init :: (ipnet, int \<times> int) Term)
       \<lparr>protocol := [''icmp''], port := [(80, 80)]\<rparr>) = Inl TermNoActionError
   \<and> SanityCheck ((Term_init :: (ipnet, int \<times> int) Term)
       \<lparr>action := [''accept''], filter_term := Some ''f'', protocol := [''icmp''],
        port := [(80, 80)]\<rparr>) = Inl InvalidTermActionError"
  by (simp add: SanityCheck_def sanity_verbatim_action_def truthy_def
      py_not_def)

text \<open>
  C7 (amended). For every fully-built term without verbatim text that has one of action,
  routing-instance, next-ip, encapsulate, filter-term and port-mirror, does not have both
  a filter-term and an action, declares a port attribute (port, source-port or
  destination-port) and has a protocol outside {tcp, udp, udplite, sctp}:
  \<^verbatim>\<open>SanityCheck\<close> fails with \<^verbatim>\<open>MixedPortandNonPortProtos\<close> when the protocol set also
  has a port-bearing protocol, and with \<^verbatim>\<open>TermPortProtocolError\<close> when it has none.
  And for every term whose protocol set is empty or entirely port-bearing,
  \<^verbatim>\<open>SanityCheck\<close> raises neither of the two errors.
\<close>

theorem SanityCheck_port_protocol:
  "(verbatim self = []
      \<and> (action self \<noteq> [] \<or> truthy (routing_instance self) \<or> \<not> py_not (next_ip self)
          \<or> truthy (encapsulate self) \<or> truthy (filter_term self)
          \<or> truthy (port_mirror self))
      \<and> \<not> (truthy (filter_term self) \<and> action self \<noteq> [])
      \<and> (source_port self \<noteq> [] \<or> destination_port self \<noteq> [] \<or> port self \<noteq> [])
      \<and> \<not> set (protocol self) \<subseteq> set PROTOS_WITH_PORTS
    \<longrightarrow> SanityCheck self =
          Inl (if set (protocol self) \<inter> set PROTOS_WITH_PORTS \<noteq> {}
               then MixedPortandNonPortProtos else TermPortProtocolError))
   \<and> (set (protocol self) \<subseteq> set PROTOS_WITH_PORTS
    \<longrightarrow> SanityCheck self \<noteq> Inl MixedPortandNonPortProtos
        \<and> SanityCheck self \<noteq> Inl TermPortProtocolError)"
proof (intro conjI impI)
  assume h: "verbatim self = []
      \<and> (action self \<noteq> [] \<or> truthy (routing_instance self) \<or> \<not> py_not (next_ip self)
          \<or> truthy (encapsulate self) \<or> truthy (filter_term self)
          \<or> truthy (port_mirror self))
      \<and> \<not> (truthy (filter_term self) \<and> action self \<noteq> [])
      \<and> (source_port self \<noteq> [] \<or> destination_port self \<noteq> [] \<or> port self \<noteq> [])
      \<and> \<not> set (protocol self) \<subseteq> set PROTOS_WITH_PORTS"
  from h have v: "verbatim self = []" by (rule conjunct1)
  from h have a: "\<not> (action self = [] \<and> \<not> truthy (routing_instance self)
          \<and> py_not (next_ip self) \<and> \<not> truthy (encapsulate self)
          \<and> \<not> truthy (filter_term self) \<and> \<not> truthy (port_mirror self))"
    by blast
  from h have f: "\<not> (truthy (filter_term self) \<and> action self \<noteq> [])" by blast
  from h have p: "\<not> set (protocol self) \<subseteq> set PROTOS_WITH_PORTS
           \<and> (source_port self \<noteq> [] \<or> destination_port self \<noteq> [] \<or> port self \<noteq> [])"
    by blast
  have "sanity_verbatim_action self =
      Some (if set (protocol self) \<inter> set PROTOS_WITH_PORTS \<noteq> {}
            then MixedPortandNonPortProtos else TermPortProtocolError)"
    unfolding sanity_verbatim_action_ports [OF v a f] using p by simp
  then show "SanityCheck self =
      Inl (if set (protocol self) \<inter> set PROTOS_WITH_PORTS \<noteq> {}
           then MixedPortandNonPortProtos else TermPortProtocolError)"
    by (simp add: SanityCheck_def)
next
  assume h: "set (protocol self) \<subseteq> set PROTOS_WITH_PORTS"
  show "SanityCheck self \<noteq> Inl MixedPortandNonPortProtos"
    using SanityCheck_port_error_source [of self MixedPortandNonPortProtos]
      sanity_verbatim_action_no_port_error [OF h] by blast
next
  assume h: "set (protocol self) \<subseteq> set PROTOS_WITH_PORTS"
  show "SanityCheck self \<noteq> Inl TermPortProtocolError"
    using SanityCheck_port_error_source [of self TermPortProtocolError]
      sanity_verbatim_action_no_port_error [OF h] by blast
qed

theorem SanityCheck_port_protocol_witness:
  "SanityCheck ((Term_init :: (ipnet, int \<times> int) Term)
       \<lparr>action := [''accept''], protocol := [''icmp''], port := [(80, 80)]\<rparr>)
     = Inl TermPortProtocolError
   \<and> SanityCheck ((Term_init :: (ipnet, int \<times> int) Term)
       \<lparr>action := [''accept''], protocol := [''tcp'', ''icmp''], destination_port := [(80, 80)]\<rparr>)
     = Inl MixedPortandNonPortProtos
   \<and> SanityCheck ((Term_init :: (ipnet, int \<times> int) Term)
       \<lparr>action := [''accept''], protocol := [''tcp'', ''udp''], port := [(80, 80)]\<rparr>)
     \<noteq> Inl TermPortProtocolError"
proof -
  have 1: "SanityCheck ((Term_init :: (ipnet, int \<times> int) Term)
       \<lparr>action := [''accept''], protocol := [''icmp''], port := [(80, 80)]\<rparr>)
     = Inl TermPortProtocolError"
    using SanityCheck_port_protocol [of "(Term_init :: (ipnet, int \<times> int) Term)
       \<lparr>action := [''accept''], protocol := [''icmp''], port := [(80, 80)]\<rparr>"]
    by (simp add: PROTOS_WITH_PORTS_def truthy_def py_not_def)
  have 2: "SanityCheck ((Term_init :: (ipnet, int \<times> int) Term)
       \<lparr>action := [''accept''], protocol := [''tcp'', ''icmp''], destination_port := [(80, 80)]\<rparr>)
     = Inl MixedPortandNonPortProtos"
    using SanityCheck_port_protocol [of "(Term_init :: (ipnet, int \<times> int) Term)
       \<lparr>action := [''accept''], protocol := [''tcp'', ''icmp''], destination_port := [(80, 80)]\<rparr>"]
    by (simp add: PROTOS_WITH_PORTS_def truthy_def py_not_def)
  have 3: "SanityCheck ((Term_init :: (ipnet, int \<times> int) Term)
       \<lparr>action := [''accept''], protocol := [''tcp'', ''udp''], port := [(80, 80)]\<rparr>)
     \<noteq> Inl TermPortProtocolError"
    using SanityCheck_port_protocol [of "(Term_init :: (ipnet, int \<times> int) Term)
       \<lparr>action := [''accept''], protocol := [''tcp'', ''udp''], port := [(80, 80)]\<rparr>"]
    by (simp add: PROTOS_WITH_PORTS_def truthy_def py_not_def)
  from 1 2 3 show ?thesis by blast
qed

section \<open>What \<^verbatim>\<open>FlattenAll\<close> and \<^verbatim>\<open>__contains__\<close> leave unchanged\<close>

lemma FlattenAll_sel [simp]:
  "name (FlattenAll E m t) = name t"
  "action (FlattenAll E m t) = action t"
  "verbatim (FlattenAll E m t) = verbatim t"
  "protocol (FlattenAll E m t) = protocol t"
  "protocol_except (FlattenAll E m t) = protocol_except t"
  "icmp_type (FlattenAll E m t) = icmp_type t"
  "icmp_code (FlattenAll E m t) = icmp_code t"
  "platform (FlattenAll E m t) = platform t"
  "platform_exclude (FlattenAll E m t) = platform_exclude t"
  "source_zone (FlattenAll E m t) = source_zone t"
  "destination_zone (FlattenAll E m t) = destination_zone t"
  "flattened (FlattenAll E m t) = True"
  by (simp_all add: FlattenAll_def Let_def)

lemma first_failure_False: "Inr False \<in> set rs \<Longrightarrow> first_failure rs \<noteq> Inr True"
  by (induction rs rule: first_failure.induct) auto

lemma sorted_is_not_sorted_True: "sorted_is_not_sorted xs ys"
  by (simp add: sorted_is_not_sorted_def py_sorted_def py_is_not_def)

lemma contains_identity_iff: "contains_identity mine theirs = (mine = [])"
  by (simp add: contains_identity_def sorted_is_not_sorted_True)

lemmas contains_eval =
  Term_contains_def Let_def contains_verbatim_def contains_protocol_def
  CheckProtocolIsContained_def FlattenAll_def contains_flattened_def contains_address_def
  CheckAddressIsContained_def py_not_def contains_port_def CheckPortIsContained_def
  contains_prefix_def contains_tag_def contains_precedence_def contains_option_def
  contains_members_def contains_forwarding_class_def contains_next_ip_def truthy_def
  contains_fragment_offset_def contains_hop_limit_def contains_packet_length_def
  contains_port_mirror_def contains_identity_iff

section \<open>C2: the fields compared by identity\<close>

lemma contains_flattened_identity:
  assumes "icmp_type s \<noteq> [] \<or> icmp_code s \<noteq> [] \<or> platform s \<noteq> []
      \<or> platform_exclude s \<noteq> [] \<or> source_zone s \<noteq> [] \<or> destination_zone s \<noteq> []"
  shows "contains_flattened subnet_of s t \<noteq> Inr True"
proof -
  have "Inr False \<in> {Inr (contains_identity (icmp_type s) (icmp_type t)),
        Inr (contains_identity (icmp_code s) (icmp_code t)),
        Inr (contains_identity (platform s) (platform t)),
        Inr (contains_identity (platform_exclude s) (platform_exclude t)),
        Inr (contains_identity (source_zone s) (source_zone t)),
        Inr (contains_identity (destination_zone s) (destination_zone t))}"
    using assms by (simp add: contains_identity_iff)
  then show ?thesis
    unfolding contains_flattened_def by (intro first_failure_False) auto
qed

text \<open>
  C2 (the code against the claim). The claim says that a term \<open>A\<close> with a non-empty
  icmp-type, icmp-code, platform, platform-exclude, source-zone or destination-zone
  contains \<open>B\<close> only if \<open>B\<close>'s value of the field is equal to \<open>A\<close>'s, equal values
  passing the check. The six checks are written
  \<^verbatim>\<open>sorted(self.f) is not sorted(other.f)\<close>, which compares two newly allocated lists by
  identity and always holds: a term with any of the six fields non-empty contains no
  term at all, one with equal fields included.
\<close>

theorem Term_contains_identity_fields:
  assumes "icmp_type self \<noteq> [] \<or> icmp_code self \<noteq> [] \<or> platform self \<noteq> []
      \<or> platform_exclude self \<noteq> [] \<or> source_zone self \<noteq> []
      \<or> destination_zone self \<noteq> []"
  shows "fst (Term_contains AddressListExclude subnet_of self other) \<noteq> Inr True"
proof -
  let ?s = "if \<not> flattened self then FlattenAll AddressListExclude True self else self"
  let ?t = "if \<not> flattened other then FlattenAll AddressListExclude True other else other"
  have "icmp_type ?s \<noteq> [] \<or> icmp_code ?s \<noteq> [] \<or> platform ?s \<noteq> []
      \<or> platform_exclude ?s \<noteq> [] \<or> source_zone ?s \<noteq> [] \<or> destination_zone ?s \<noteq> []"
    using assms by (cases "flattened self") simp_all
  then have "contains_flattened subnet_of ?s ?t \<noteq> Inr True"
    by (rule contains_flattened_identity)
  then show ?thesis
    by (simp add: Term_contains_def Let_def)
qed

theorem Term_contains_identity_fields_witness:
  "fst (Term_contains ip_list_exclude ip_subnet_of
      ((Term_init :: (ipnet, int \<times> int) Term)\<lparr>name := Some ''a'', action := [''accept''],
          protocol := [''icmp''], icmp_type := [''echo-request'']\<rparr>)
      ((Term_init :: (ipnet, int \<times> int) Term)\<lparr>name := Some ''b'', action := [''accept''],
          protocol := [''icmp''], icmp_type := [''echo-request'']\<rparr>)) = Inr False"
  using Term_contains_identity_fields [of "(Term_init :: (ipnet, int \<times> int) Term)\<lparr>name := Some ''a'',
          action := [''accept''], protocol := [''icmp''], icmp_type := [''echo-request'']\<rparr>"
      ip_list_exclude ip_subnet_of
      "(Term_init :: (ipnet, int \<times> int) Term)\<lparr>name := Some ''b'', action := [''accept''],
          protocol := [''icmp''], icmp_type := [''echo-request'']\<rparr>"]
  by (simp add: contains_eval)

section \<open>The shading pass\<close>

lemma Term_contains_flat:
  "Term_contains E sub s t =
     (if \<not> contains_verbatim s t then (Inr False, s, t)
      else if \<not> contains_protocol s t then (Inr False, s, t)
      else (contains_flattened sub (flat E s) (flat E t), flat E s, flat E t))"
  by (simp add: Term_contains_def flat_def Let_def)

lemma same_or_flattened_refl: "same_or_flattened E t t"
  by (simp add: same_or_flattened_def)

lemma same_or_flattened_sel:
  assumes "same_or_flattened E t' t"
  shows "name t' = name t" "action t' = action t" "verbatim t' = verbatim t"
    "protocol t' = protocol t" "protocol_except t' = protocol_except t"
  using assms by (auto simp: same_or_flattened_def)

lemma same_or_flattened_flat:
  assumes "same_or_flattened E t' t"
  shows "flat E t' = flat E t"
  using assms by (auto simp: same_or_flattened_def flat_def)

lemma flat_same_or_flattened: "same_or_flattened E (flat E t) t"
  by (simp add: same_or_flattened_def flat_def)

lemma contains_verbatim_cong:
  "verbatim s' = verbatim s \<Longrightarrow> verbatim t' = verbatim t \<Longrightarrow>
     contains_verbatim s' t' = contains_verbatim s t"
  by (simp add: contains_verbatim_def)

lemma contains_protocol_cong:
  "protocol s' = protocol s \<Longrightarrow> protocol_except s' = protocol_except s \<Longrightarrow>
   protocol t' = protocol t \<Longrightarrow> protocol_except t' = protocol_except t \<Longrightarrow>
     contains_protocol s' t' = contains_protocol s t"
  by (simp add: contains_protocol_def)

lemma Term_contains_same_or_flattened:
  assumes s: "same_or_flattened E s' s" and t: "same_or_flattened E t' t"
  shows "fst (Term_contains E sub s' t') = fst (Term_contains E sub s t)"
    and "same_or_flattened E (fst (snd (Term_contains E sub s' t'))) s"
    and "same_or_flattened E (snd (snd (Term_contains E sub s' t'))) t"
proof -
  have v: "contains_verbatim s' t' = contains_verbatim s t"
    using same_or_flattened_sel [OF s] same_or_flattened_sel [OF t]
    by (intro contains_verbatim_cong)
  have p: "contains_protocol s' t' = contains_protocol s t"
    using same_or_flattened_sel [OF s] same_or_flattened_sel [OF t]
    by (intro contains_protocol_cong)
  have fs: "flat E s' = flat E s"
    using s by (rule same_or_flattened_flat)
  have ft: "flat E t' = flat E t"
    using t by (rule same_or_flattened_flat)
  show "fst (Term_contains E sub s' t') = fst (Term_contains E sub s t)"
    by (simp add: Term_contains_flat v p fs ft)
  show "same_or_flattened E (fst (snd (Term_contains E sub s' t'))) s"
    using s flat_same_or_flattened [of E s] by (simp add: Term_contains_flat fs)
  show "same_or_flattened E (snd (snd (Term_contains E sub s' t'))) t"
    using t flat_same_or_flattened [of E t] by (simp add: Term_contains_flat ft)
qed

lemma unflattened_FlattenAll: "unflattened (FlattenAll E m t) = unflattened t"
  by (cases "source_address_exclude t = []"; cases "destination_address_exclude t = []";
      cases "address_exclude t = []"; cases m)
    (simp_all add: unflattened_def FlattenAll_def Let_def)

lemma same_or_flattened_unflattened:
  "same_or_flattened E t' t \<Longrightarrow> unflattened t' = unflattened t"
  by (auto simp: same_or_flattened_def unflattened_FlattenAll)

lemma shade_pairs_bounds: "ip \<in> set (shade_pairs n) \<Longrightarrow> snd ip < fst ip \<and> fst ip < n"
  by (auto simp: shade_pairs_def)

lemma shade_pair_raised: "sh_raised st \<noteq> None \<Longrightarrow> shade_pair E sub st ip = st"
  by (simp add: shade_pair_def)

lemma foldl_shade_pair_raised:
  "sh_raised st \<noteq> None \<Longrightarrow> foldl (shade_pair E sub) st ps = st"
  by (induction ps) (simp_all add: shade_pair_raised)

lemma shade_pair_step:
  assumes inv: "list_all2 (same_or_flattened E) (sh_terms st) ts"
    and nr: "sh_raised st = None"
    and lt: "snd ip < fst ip" and le: "fst ip < length ts"
  shows "list_all2 (same_or_flattened E) (sh_terms (shade_pair E sub st ip)) ts"
    and "sh_raised (shade_pair E sub st ip) = None \<Longrightarrow>
         sh_warnings (shade_pair E sub st ip) =
           sh_warnings st @ (if shaded_by E sub ts ip then [shade_msg ts ip] else [])"
proof -
  define i where "i = fst ip"
  define j where "j = snd ip"
  define r where "r = Term_contains E sub (sh_terms st ! j) (sh_terms st ! i)"
  define us where "us = (sh_terms st)[j := fst (snd r), i := snd (snd r)]"
  have len: "length (sh_terms st) = length ts"
    using inv by (rule list_all2_lengthD)
  have ij: "j < i" "i < length ts" "j < length ts"
    using lt le by (simp_all add: i_def j_def)
  have relj: "same_or_flattened E (sh_terms st ! j) (ts ! j)"
    using inv ij(3) by (rule list_all2_nthD2)
  have reli: "same_or_flattened E (sh_terms st ! i) (ts ! i)"
    using inv ij(2) by (rule list_all2_nthD2)
  have out: "fst r = fst (Term_contains E sub (ts ! j) (ts ! i))"
    unfolding r_def using relj reli by (rule Term_contains_same_or_flattened(1))
  have rj: "same_or_flattened E (fst (snd r)) (ts ! j)"
    unfolding r_def using relj reli by (rule Term_contains_same_or_flattened(2))
  have ri: "same_or_flattened E (snd (snd r)) (ts ! i)"
    unfolding r_def using relj reli by (rule Term_contains_same_or_flattened(3))
  have "list_all2 (same_or_flattened E) ((sh_terms st)[j := fst (snd r)]) (ts[j := ts ! j])"
    using inv rj by (rule list_all2_update_cong)
  then have "list_all2 (same_or_flattened E) ((sh_terms st)[j := fst (snd r)]) ts"
    by simp
  then have "list_all2 (same_or_flattened E) us (ts[i := ts ! i])"
    unfolding us_def using ri by (rule list_all2_update_cong)
  then have invus: "list_all2 (same_or_flattened E) us ts"
    by simp
  have usj: "same_or_flattened E (us ! j) (ts ! j)"
    using invus ij(3) by (rule list_all2_nthD2)
  have usi: "same_or_flattened E (us ! i) (ts ! i)"
    using invus ij(2) by (rule list_all2_nthD2)
  have act: "action (us ! j) = action (ts ! j)"
    and nj: "name (us ! j) = name (ts ! j)"
    using same_or_flattened_sel [OF usj] by simp_all
  have ni: "name (us ! i) = name (ts ! i)"
    using same_or_flattened_sel [OF usi] by simp
  have sp: "shade_pair E sub st ip =
      (case fst r of
         Inl e \<Rightarrow> st\<lparr>sh_terms := us, sh_raised := Some e\<rparr>
       | Inr b \<Rightarrow>
          (if b \<and> ''next'' \<notin> set (action (us ! j))
           then st\<lparr>sh_terms := us,
                   sh_warnings := sh_warnings st @
                     [str_name (name (us ! i)) @ '' is shaded by '' @ str_name (name (us ! j))]\<rparr>
           else st\<lparr>sh_terms := us\<rparr>))"
    unfolding shade_pair_def Let_def i_def j_def r_def us_def using nr by simp
  show "list_all2 (same_or_flattened E) (sh_terms (shade_pair E sub st ip)) ts"
    using invus by (simp add: sp split: sum.split)
  show "sh_warnings (shade_pair E sub st ip) =
      sh_warnings st @ (if shaded_by E sub ts ip then [shade_msg ts ip] else [])"
    if "sh_raised (shade_pair E sub st ip) = None"
  proof (cases "fst r")
    case (Inl e)
    then show ?thesis using that by (simp add: sp)
  next
    case (Inr b)
    then show ?thesis
      using out act nj ni
      by (simp add: sp shaded_by_def shade_msg_def i_def j_def)
  qed
qed

lemma foldl_shade_pair_inv:
  assumes "list_all2 (same_or_flattened E) (sh_terms st) ts"
    and "\<forall>ip \<in> set ps. snd ip < fst ip \<and> fst ip < length ts"
  shows "list_all2 (same_or_flattened E) (sh_terms (foldl (shade_pair E sub) st ps)) ts"
  using assms
proof (induction ps arbitrary: st)
  case Nil then show ?case by simp
next
  case (Cons ip ps)
  have "list_all2 (same_or_flattened E) (sh_terms (shade_pair E sub st ip)) ts"
  proof (cases "sh_raised st = None")
    case True
    then show ?thesis using Cons.prems by (intro shade_pair_step(1)) auto
  next
    case False
    then show ?thesis using Cons.prems(1) by (simp add: shade_pair_raised)
  qed
  then have "list_all2 (same_or_flattened E)
      (sh_terms (foldl (shade_pair E sub) (shade_pair E sub st ip) ps)) ts"
    using Cons.prems(2) by (intro Cons.IH) auto
  then show ?case by simp
qed

lemma foldl_shade_pair_warnings:
  assumes "list_all2 (same_or_flattened E) (sh_terms st) ts"
    and "\<forall>ip \<in> set ps. snd ip < fst ip \<and> fst ip < length ts"
    and "sh_raised st = None"
    and "sh_raised (foldl (shade_pair E sub) st ps) = None"
  shows "sh_warnings (foldl (shade_pair E sub) st ps) =
      sh_warnings st @ map (shade_msg ts) (filter (shaded_by E sub ts) ps)"
  using assms
proof (induction ps arbitrary: st)
  case Nil then show ?case by simp
next
  case (Cons ip ps)
  let ?st = "shade_pair E sub st ip"
  have b: "snd ip < fst ip" "fst ip < length ts"
    using Cons.prems(2) by auto
  have inv: "list_all2 (same_or_flattened E) (sh_terms ?st) ts"
    using Cons.prems(1,3) b by (rule shade_pair_step(1))
  have fin: "sh_raised (foldl (shade_pair E sub) ?st ps) = None"
    using Cons.prems(4) by simp
  have nr: "sh_raised ?st = None"
  proof (rule ccontr)
    assume "sh_raised ?st \<noteq> None"
    then show False
      using fin by (simp add: foldl_shade_pair_raised)
  qed
  have w: "sh_warnings ?st =
      sh_warnings st @ (if shaded_by E sub ts ip then [shade_msg ts ip] else [])"
    using Cons.prems(1,3) b nr by (rule shade_pair_step(2))
  have "sh_warnings (foldl (shade_pair E sub) ?st ps) =
      sh_warnings ?st @ map (shade_msg ts) (filter (shaded_by E sub ts) ps)"
    using inv Cons.prems(2) nr fin by (intro Cons.IH) auto
  then show ?case by (simp add: w)
qed

lemma DetectShading_init_inv:
  "list_all2 (same_or_flattened E)
     (sh_terms \<lparr>sh_terms = ts, sh_warnings = [], sh_raised = None\<rparr>) ts"
  by (simp add: list_all2_refl same_or_flattened_refl)

lemma list_all2_map_eq:
  "list_all2 P xs ys \<Longrightarrow> (\<And>x y. P x y \<Longrightarrow> f x = f y) \<Longrightarrow> map f xs = map f ys"
  by (induction rule: list_all2_induct) simp_all

lemma shade_pairs_2: "shade_pairs (Suc (Suc 0)) = [(Suc 0, 0)]"
  by (simp add: shade_pairs_def)

lemma Term_contains_sel:
  "action (fst (snd (Term_contains E sub s t))) = action s"
  "name (fst (snd (Term_contains E sub s t))) = name s"
  "name (snd (snd (Term_contains E sub s t))) = name t"
  by (simp_all add: Term_contains_flat flat_def)

section \<open>C3: what the shading pass changes\<close>

text \<open>
  C3 (counterexample). The claim says that \<^verbatim>\<open>_DetectShading\<close> returns with the attribute
  values of all terms unchanged. \<^verbatim>\<open>_DetectShading\<close> evaluates
  \<^verbatim>\<open>term in terms[prior_index]\<close>, and \<^verbatim>\<open>__contains__\<close> calls \<^verbatim>\<open>FlattenAll()\<close> on
  both terms. For the list of a term \<open>a\<close> that accepts everything and a term \<open>b\<close> with
  source address 10.0.0.0/8 and the same network as source exclude, the pass warns that
  \<open>b\<close> is shaded by \<open>a\<close> and leaves both terms with \<^verbatim>\<open>flattened\<close> set and the three
  \<^verbatim>\<open>flattened_*\<close> lists of \<open>a\<close> filled, and \<open>b\<close> with an empty source address list.
\<close>

theorem DetectShading_mutates_counterexample:
  "sh_terms (DetectShading ip_list_exclude ip_subnet_of
      [(Term_init :: (ipnet, int \<times> int) Term)\<lparr>name := Some ''a'', action := [''accept'']\<rparr>,
       (Term_init :: (ipnet, int \<times> int) Term)\<lparr>name := Some ''b'', action := [''deny''],
          source_address := [(4, 167772160, 184549375)],
          source_address_exclude := [(4, 167772160, 184549375)]\<rparr>])
   = [(Term_init :: (ipnet, int \<times> int) Term)\<lparr>name := Some ''a'', action := [''accept''],
          flattened := True, flattened_addr := Some [], flattened_saddr := Some [],
          flattened_daddr := Some []\<rparr>,
      (Term_init :: (ipnet, int \<times> int) Term)\<lparr>name := Some ''b'', action := [''deny''],
          source_address := [], source_address_exclude := [(4, 167772160, 184549375)],
          flattened := True, flattened_saddr := Some []\<rparr>]
   \<and> sh_warnings (DetectShading ip_list_exclude ip_subnet_of
      [(Term_init :: (ipnet, int \<times> int) Term)\<lparr>name := Some ''a'', action := [''accept'']\<rparr>,
       (Term_init :: (ipnet, int \<times> int) Term)\<lparr>name := Some ''b'', action := [''deny''],
          source_address := [(4, 167772160, 184549375)],
          source_address_exclude := [(4, 167772160, 184549375)]\<rparr>])
   = [''b is shaded by a'']"
  by (simp add: DetectShading_def shade_pairs_2 [simplified] shade_pair_def contains_eval
      str_name_def ip_list_exclude_def ip_exclude_def)

text \<open>
  C3 (amended). For every ordered term list, \<^verbatim>\<open>_DetectShading\<close> returns with the number
  and order of the terms unchanged, and each term is left either as it was or, if it was
  not flattened, as the default \<^verbatim>\<open>FlattenAll()\<close> leaves it: every attribute keeps its
  value except \<^verbatim>\<open>flattened\<close>, the three \<^verbatim>\<open>flattened_*\<close> lists, and those of
  \<^verbatim>\<open>address\<close>, \<^verbatim>\<open>source_address\<close> and \<^verbatim>\<open>destination_address\<close> that have a
  non-empty exclude list. When no comparison raises, the warnings are one per pair
  \<open>(index, prior_index)\<close> with \<open>prior_index < index\<close>, in the order of the loops, for which
  the prior term as given contains the term as given and has no \<^verbatim>\<open>next\<close> action.
\<close>

theorem DetectShading_effect:
  "list_all2 (same_or_flattened E) (sh_terms (DetectShading E sub ts)) ts
   \<and> map unflattened (sh_terms (DetectShading E sub ts)) = map unflattened ts
   \<and> (sh_raised (DetectShading E sub ts) = None \<longrightarrow>
        sh_warnings (DetectShading E sub ts) =
          map (shade_msg ts) (filter (shaded_by E sub ts) (shade_pairs (length ts))))"
proof -
  let ?st = "\<lparr>sh_terms = ts, sh_warnings = [], sh_raised = None\<rparr>"
  have b: "\<forall>ip \<in> set (shade_pairs (length ts)). snd ip < fst ip \<and> fst ip < length ts"
    using shade_pairs_bounds by blast
  have inv: "list_all2 (same_or_flattened E) (sh_terms (DetectShading E sub ts)) ts"
    unfolding DetectShading_def
    using DetectShading_init_inv b by (rule foldl_shade_pair_inv)
  have fr: "map unflattened (sh_terms (DetectShading E sub ts)) = map unflattened ts"
    using inv same_or_flattened_unflattened by (rule list_all2_map_eq)
  have w: "sh_warnings (DetectShading E sub ts) =
      map (shade_msg ts) (filter (shaded_by E sub ts) (shade_pairs (length ts)))"
    if "sh_raised (DetectShading E sub ts) = None"
  proof -
    have "sh_warnings (foldl (shade_pair E sub) ?st (shade_pairs (length ts))) =
        sh_warnings ?st
          @ map (shade_msg ts) (filter (shaded_by E sub ts) (shade_pairs (length ts)))"
      using DetectShading_init_inv b
    proof (rule foldl_shade_pair_warnings)
      show "sh_raised ?st = None" by simp
      show "sh_raised (foldl (shade_pair E sub) ?st (shade_pairs (length ts))) = None"
        using that by (simp add: DetectShading_def)
    qed
    then show ?thesis by (simp add: DetectShading_def)
  qed
  from inv fr w show ?thesis by blast
qed

theorem DetectShading_effect_witness:
  "map unflattened (sh_terms (DetectShading ip_list_exclude ip_subnet_of
      [(Term_init :: (ipnet, int \<times> int) Term)\<lparr>name := Some ''a'', action := [''accept'']\<rparr>,
       (Term_init :: (ipnet, int \<times> int) Term)\<lparr>name := Some ''b'', action := [''deny''],
          protocol := [''tcp''], destination_port := [(80, 80)]\<rparr>,
       (Term_init :: (ipnet, int \<times> int) Term)\<lparr>name := Some ''c'', action := [''deny'']\<rparr>]))
   = map unflattened
      [(Term_init :: (ipnet, int \<times> int) Term)\<lparr>name := Some ''a'', action := [''accept'']\<rparr>,
       (Term_init :: (ipnet, int \<times> int) Term)\<lparr>name := Some ''b'', action := [''deny''],
          protocol := [''tcp''], destination_port := [(80, 80)]\<rparr>,
       (Term_init :: (ipnet, int \<times> int) Term)\<lparr>name := Some ''c'', action := [''deny'']\<rparr>]
   \<and> sh_warnings (DetectShading ip_list_exclude ip_subnet_of
      [(Term_init :: (ipnet, int \<times> int) Term)\<lparr>name := Some ''a'', action := [''accept'']\<rparr>,
       (Term_init :: (ipnet, int \<times> int) Term)\<lparr>name := Some ''b'', action := [''deny''],
          protocol := [''tcp''], destination_port := [(80, 80)]\<rparr>,
       (Term_init :: (ipnet, int \<times> int) Term)\<lparr>name := Some ''c'', action := [''deny'']\<rparr>])
   = [''b is shaded by a'', ''c is shaded by a'']"
proof -
  let ?ts = "[(Term_init :: (ipnet, int \<times> int) Term)\<lparr>name := Some ''a'', action := [''accept'']\<rparr>,
       (Term_init :: (ipnet, int \<times> int) Term)\<lparr>name := Some ''b'', action := [''deny''],
          protocol := [''tcp''], destination_port := [(80, 80)]\<rparr>,
       (Term_init :: (ipnet, int \<times> int) Term)\<lparr>name := Some ''c'', action := [''deny'']\<rparr>]"
  have p: "shade_pairs (length ?ts) = [(1, 0), (2, 0), (2, 1)]"
    by (simp add: shade_pairs_def upt_rec)
  have r: "sh_raised (DetectShading ip_list_exclude ip_subnet_of ?ts) = None"
    unfolding DetectShading_def p
    by (simp add: shade_pair_def contains_eval str_name_def)
  have f: "filter (shaded_by ip_list_exclude ip_subnet_of ?ts) [(1, 0), (2, 0), (2, 1)]
      = [(1, 0), (2, 0)]"
    by (simp add: shaded_by_def contains_eval)
  show ?thesis
    using DetectShading_effect [of ip_list_exclude ip_subnet_of ?ts] r
    by (simp only: p f) (simp add: shade_msg_def str_name_def)
qed

section \<open>C5: shading of a pair\<close>

text \<open>
  C5. For all terms \<open>A\<close> and \<open>B\<close>, the shading pass over the list \<open>[A, B]\<close> logs the
  warning that \<open>B\<close> is shaded by \<open>A\<close> if and only if \<open>A\<close> contains \<open>B\<close>
  (\<^verbatim>\<open>B in A\<close> returns True) and the action list of \<open>A\<close> does not include
  \<^verbatim>\<open>next\<close>, and logs nothing otherwise; in particular nothing is logged when the
  action list of \<open>A\<close> includes \<^verbatim>\<open>next\<close>.
\<close>

theorem DetectShading_pair:
  "sh_warnings (DetectShading E sub [A, B]) =
     (if fst (Term_contains E sub A B) = Inr True \<and> ''next'' \<notin> set (action A)
      then [str_name (name B) @ '' is shaded by '' @ str_name (name A)] else [])"
proof (cases "fst (Term_contains E sub A B)")
  case (Inl e)
  then show ?thesis
    by (simp add: DetectShading_def shade_pairs_2 [simplified] shade_pair_def Let_def)
next
  case (Inr b)
  then show ?thesis
    by (simp add: DetectShading_def shade_pairs_2 [simplified] shade_pair_def Let_def
        Term_contains_sel)
qed

theorem DetectShading_pair_witness:
  "sh_warnings (DetectShading ip_list_exclude ip_subnet_of
      [(Term_init :: (ipnet, int \<times> int) Term)\<lparr>name := Some ''a'', action := [''accept'']\<rparr>,
       (Term_init :: (ipnet, int \<times> int) Term)\<lparr>name := Some ''b'', action := [''deny''],
          protocol := [''tcp''], destination_port := [(80, 80)]\<rparr>])
     = [''b is shaded by a'']
   \<and> sh_warnings (DetectShading ip_list_exclude ip_subnet_of
      [(Term_init :: (ipnet, int \<times> int) Term)\<lparr>name := Some ''a'', action := [''next'']\<rparr>,
       (Term_init :: (ipnet, int \<times> int) Term)\<lparr>name := Some ''b'', action := [''deny''],
          protocol := [''tcp''], destination_port := [(80, 80)]\<rparr>])
     = []
   \<and> sh_warnings (DetectShading ip_list_exclude ip_subnet_of
      [(Term_init :: (ipnet, int \<times> int) Term)\<lparr>name := Some ''a'', action := [''accept''],
          protocol := [''udp'']\<rparr>,
       (Term_init :: (ipnet, int \<times> int) Term)\<lparr>name := Some ''b'', action := [''deny''],
          protocol := [''tcp''], destination_port := [(80, 80)]\<rparr>])
     = []"
  using
    DetectShading_pair [of ip_list_exclude ip_subnet_of
      "(Term_init :: (ipnet, int \<times> int) Term)\<lparr>name := Some ''a'', action := [''accept'']\<rparr>"
      "(Term_init :: (ipnet, int \<times> int) Term)\<lparr>name := Some ''b'', action := [''deny''],
          protocol := [''tcp''], destination_port := [(80, 80)]\<rparr>"]
    DetectShading_pair [of ip_list_exclude ip_subnet_of
      "(Term_init :: (ipnet, int \<times> int) Term)\<lparr>name := Some ''a'', action := [''next'']\<rparr>"
      "(Term_init :: (ipnet, int \<times> int) Term)\<lparr>name := Some ''b'', action := [''deny''],
          protocol := [''tcp''], destination_port := [(80, 80)]\<rparr>"]
    DetectShading_pair [of ip_list_exclude ip_subnet_of
      "(Term_init :: (ipnet, int \<times> int) Term)\<lparr>name := Some ''a'', action := [''accept''],
          protocol := [''udp'']\<rparr>"
      "(Term_init :: (ipnet, int \<times> int) Term)\<lparr>name := Some ''b'', action := [''deny''],
          protocol := [''tcp''], destination_port := [(80, 80)]\<rparr>"]
  by (simp add: contains_eval str_name_def)

end
